theory Spec2Isabelle
  imports Main "HOL-Library.AList"
begin

section \<open>JavaScript strings and thrown values\<close>

text \<open>
  A JavaScript string is the list of its UTF-16 code units: \<open>length\<close> is the source's
  \<open>.length\<close>, \<open>take n\<close> is \<open>.substring(0, n)\<close>. ASCII literals of the source are written
  \<open>js ''...''\<close>.
\<close>

type_synonym jsstring = "nat list"

definition js :: "string \<Rightarrow> jsstring" where
  "js s = map of_char s"

text \<open>
  The warning sign U+26A0 U+FE0F that opens the placeholder texts of the summary,
  titles and hashtags generators.
\<close>

definition WARNING_SIGN :: jsstring where
  "WARNING_SIGN = [9888, 65039]"

text \<open>
  A thrown value is an \<open>Error\<close> object (its message and its \<open>stack\<close>, a string on
  every Error the runtime creates or the engine hands on) or any other value, kept as
  what \<open>String(...)\<close> makes of it. \<open>new Error(m)\<close> of the source creates the stack; its
  text starts with the header line and goes on with call frames that nothing here
  reads. A TypeError is the Error the runtime throws on \<open>null.index\<close> or on a call of
  what is not a function.
\<close>

datatype js_error = Error (message: jsstring) (stack: jsstring) | Thrown jsstring

definition new_Error :: "jsstring \<Rightarrow> js_error" where
  "new_Error m = Error m (js ''Error: '' @ m)"

definition TypeError :: "jsstring \<Rightarrow> js_error" where
  "TypeError m = Error m (js ''TypeError: '' @ m)"

section \<open>Plans, features and jobs (lib/tier-config.ts, lib/tier-utils.ts)\<close>

datatype PlanName = Free | Pro | Ultra

datatype FeatureName =
  SUMMARY | SOCIAL_POSTS | TITLES | HASHTAGS | YOUTUBE_TIMESTAMPS | KEY_MOMENTS
  | SPEAKER_DIARIZATION

datatype JobName = keyMoments | summary | socialPosts | titles | hashtags | youtubeTimestamps

text \<open>The job names as the strings the source uses for them.\<close>

fun jobString :: "JobName \<Rightarrow> jsstring" where
  "jobString keyMoments = js ''keyMoments''"
| "jobString summary = js ''summary''"
| "jobString socialPosts = js ''socialPosts''"
| "jobString titles = js ''titles''"
| "jobString hashtags = js ''hashtags''"
| "jobString youtubeTimestamps = js ''youtubeTimestamps''"

fun PLAN_FEATURES :: "PlanName \<Rightarrow> FeatureName list" where
  "PLAN_FEATURES Free = [SUMMARY]"
| "PLAN_FEATURES Pro = [SUMMARY, SOCIAL_POSTS, TITLES, HASHTAGS]"
| "PLAN_FEATURES Ultra =
     [SUMMARY, SOCIAL_POSTS, TITLES, HASHTAGS, YOUTUBE_TIMESTAMPS, KEY_MOMENTS,
      SPEAKER_DIARIZATION]"

text \<open>\<open>FEATURE_TO_JOB_MAP\<close>, its entries in the order of the object literal.\<close>

definition FEATURE_TO_JOB_entries :: "(FeatureName \<times> JobName) list" where
  "FEATURE_TO_JOB_entries =
     [(SOCIAL_POSTS, socialPosts), (TITLES, titles), (HASHTAGS, hashtags),
      (KEY_MOMENTS, keyMoments), (YOUTUBE_TIMESTAMPS, youtubeTimestamps),
      (SUMMARY, summary)]"

definition FEATURE_TO_JOB_MAP :: "FeatureName \<Rightarrow> JobName option" where
  "FEATURE_TO_JOB_MAP = map_of FEATURE_TO_JOB_entries"

text \<open>
  \<open>Object.fromEntries(Object.entries(FEATURE_TO_JOB_MAP).map(([k, v]) => [v, k]))\<close>:
  a later entry would win over an earlier one with the same key.
\<close>

definition jobToFeature :: "JobName \<Rightarrow> FeatureName option" where
  "jobToFeature = map_of (rev (map (\<lambda>(k, v). (v, k)) FEATURE_TO_JOB_entries))"

definition planHasFeature :: "PlanName \<Rightarrow> FeatureName \<Rightarrow> bool" where
  "planHasFeature plan feature = List.member (PLAN_FEATURES plan) feature"

text \<open>
  The generation tasks a plan is entitled to: the jobs of its features
  (speaker diarization is a feature with no job).
\<close>

definition entitledTasks :: "PlanName \<Rightarrow> JobName list" where
  "entitledTasks plan = List.map_filter FEATURE_TO_JOB_MAP (PLAN_FEATURES plan)"

section \<open>Artifacts, transcript and the project document (convex/schema.ts)\<close>

datatype Summary =
  Summary (full: jsstring) (bullets: "jsstring list") (insights: "jsstring list")
    (tldr: jsstring)

datatype SocialPosts =
  SocialPosts (twitter: jsstring) (linkedin: jsstring) (instagram: jsstring)
    (tiktok: jsstring) (youtube: jsstring) (facebook: jsstring)

datatype Titles =
  Titles (youtubeShort: "jsstring list") (youtubeLong: "jsstring list")
    (podcastTitles: "jsstring list") (seoKeywords: "jsstring list")

datatype Hashtags =
  Hashtags (tags_youtube: "jsstring list") (tags_instagram: "jsstring list")
    (tags_tiktok: "jsstring list") (tags_linkedin: "jsstring list")
    (tags_twitter: "jsstring list")

datatype KeyMoment =
  KeyMoment (moment_time: jsstring) (moment_timestamp: nat) (moment_text: jsstring)
    (moment_description: jsstring)

text \<open>
  The value \<open>JSON.parse\<close> returns. An object is the list of its properties. Numbers
  are whole here: a number that is not whole behaves, in every test below, as a whole
  number other than every index and other than zero.
\<close>

datatype json =
  JNull | JBool bool | JNumber int | JString jsstring | JArray "json list"
  | JObject "(jsstring \<times> json) list"

text \<open>
  A timestamp entry as \<open>generateYouTubeTimestamps\<close> builds it. Its type declares the
  description a string; at run time it is the chapter's headline or whatever value the
  provider's JSON holds as \<open>title\<close>, which nothing checks.
\<close>

datatype YouTubeTimestamp = YouTubeTimestamp (timestamp: jsstring) (description: json)

text \<open>What a generation task returns: the artifact of its kind.\<close>

datatype artifact =
  A_keyMoments "KeyMoment list" | A_summary Summary | A_socialPosts SocialPosts
  | A_titles Titles | A_hashtags Hashtags | A_youtubeTimestamps "YouTubeTimestamp list"

text \<open>
  A chapter of the transcription provider (times in milliseconds), and the transcript as
  the generation tasks read it: the text and the chapters. The stored transcript declares
  \<open>chapters\<close> optional, and the retry path casts it to the tasks' type, so the chapters
  may be undefined at run time. Segments, word timings and speakers are read by no task
  of these sources and are left out.
\<close>

datatype AssemblyAIChapter =
  AssemblyAIChapter (chapter_start: nat) (chapter_end: nat) (gist: jsstring)
    (headline: jsstring) (chapter_summary: jsstring)

datatype TranscriptWithExtras =
  TranscriptWithExtras (transcript_text: jsstring) (chapters: "AssemblyAIChapter list option")

datatype ProjectStatus = uploaded | processing | completed | failed

datatype PhaseStatus = pending | running | phase_completed | phase_failed

record JobStatus =
  transcription :: "PhaseStatus option"
  contentGeneration :: "PhaseStatus option"

text \<open>
  The \<open>details\<close> a caller hands to \<open>recordError\<close> (a string or an object, as JavaScript
  allows), and the error as the document stores it.
\<close>

datatype details_arg =
  DetailsString jsstring | DetailsObject (statusCode: "nat option") (details_stack: "jsstring option")

datatype ErrorInfo =
  ErrorInfo (err_message: jsstring) (err_step: jsstring) (err_timestamp: nat)
    (err_details: "(nat option \<times> jsstring option) option")

text \<open>
  The project document: the fields the workflow reads or writes. The six optional
  artifact fields (\<open>keyMoments\<close>, \<open>summary\<close>, ...) are the map \<open>content\<close> from their
  names; \<open>jobErrors\<close> is an optional object with one optional message per job name.
\<close>

record project =
  userId :: jsstring
  status :: ProjectStatus
  jobStatus :: "JobStatus option"
  error :: "ErrorInfo option"
  jobErrors :: "(JobName \<Rightarrow> jsstring option) option"
  transcript :: "TranscriptWithExtras option"
  content :: "JobName \<Rightarrow> artifact option"
  updatedAt :: nat
  completedAt :: "nat option"

section \<open>The store and its mutations (the Convex functions of the projects module)\<close>

text \<open>
  The world a run acts on: the documents of the store by id, and the log of the
  generation tasks invoked so far. An action returns what it returns or throws,
  together with the world it leaves.
\<close>

type_synonym projectId = nat

record world =
  docs :: "projectId \<Rightarrow> project option"
  launched :: "JobName list"

type_synonym 'a action = "world \<Rightarrow> (js_error + 'a) \<times> world"

definition succeed :: "'a \<Rightarrow> 'a action" where
  "succeed x w = (Inr x, w)"

definition throw :: "js_error \<Rightarrow> 'a action" where
  "throw e w = (Inl e, w)"

definition andThen :: "'a action \<Rightarrow> ('a \<Rightarrow> 'b action) \<Rightarrow> 'b action" where
  "andThen m k w = (case m w of (Inl e, w') \<Rightarrow> (Inl e, w') | (Inr x, w') \<Rightarrow> k x w')"

definition tryCatch :: "'a action \<Rightarrow> (js_error \<Rightarrow> 'a action) \<Rightarrow> 'a action" where
  "tryCatch m h w = (case m w of (Inl e, w') \<Rightarrow> h e w' | (Inr x, w') \<Rightarrow> (Inr x, w'))"

text \<open>
  \<open>ctx.db.patch\<close> throws on a document that does not exist (the message is the store's
  own). \<open>ctx.db.get\<close> is the lookup.
\<close>

definition db_patch :: "projectId \<Rightarrow> (project \<Rightarrow> project) \<Rightarrow> unit action" where
  "db_patch pid f w =
     (case docs w pid of
        None \<Rightarrow> (Inl (new_Error (js ''Update on nonexistent document'')), w)
      | Some p \<Rightarrow> (Inr (), w\<lparr>docs := (docs w)(pid \<mapsto> f p)\<rparr>))"

definition getProject :: "projectId \<Rightarrow> project option action" where
  "getProject pid w = (Inr (docs w pid), w)"

text \<open>Every mutation reads \<open>Date.now()\<close> once per execution: its first argument.\<close>

definition updateProjectStatus :: "nat \<Rightarrow> projectId \<Rightarrow> ProjectStatus \<Rightarrow> unit action" where
  "updateProjectStatus now pid st =
     db_patch pid (\<lambda>p.
       if st = completed
       then p\<lparr>status := st, updatedAt := now, completedAt := Some now\<rparr>
       else p\<lparr>status := st, updatedAt := now\<rparr>)"

definition saveTranscript :: "nat \<Rightarrow> projectId \<Rightarrow> TranscriptWithExtras \<Rightarrow> unit action" where
  "saveTranscript now pid t =
     db_patch pid (\<lambda>p. p\<lparr>transcript := Some t, updatedAt := now\<rparr>)"

text \<open>\<open>{...project.jobStatus, ...(args.transcription && {...}), ...}\<close>\<close>

definition mergeJobStatus ::
  "JobStatus option \<Rightarrow> PhaseStatus option \<Rightarrow> PhaseStatus option \<Rightarrow> JobStatus" where
  "mergeJobStatus old tr cg =
     (let base = (case old of
                    None \<Rightarrow> \<lparr>transcription = None, contentGeneration = None\<rparr>
                  | Some s \<Rightarrow> s);
          s1 = (case tr of None \<Rightarrow> base | Some x \<Rightarrow> base\<lparr>transcription := Some x\<rparr>)
      in case cg of None \<Rightarrow> s1 | Some y \<Rightarrow> s1\<lparr>contentGeneration := Some y\<rparr>)"

definition updateJobStatus ::
  "nat \<Rightarrow> projectId \<Rightarrow> PhaseStatus option \<Rightarrow> PhaseStatus option \<Rightarrow> unit action" where
  "updateJobStatus now pid tr cg w =
     (case docs w pid of
        None \<Rightarrow> (Inl (new_Error (js ''Project not found'')), w)
      | Some proj \<Rightarrow>
          db_patch pid
            (\<lambda>p. p\<lparr>jobStatus := Some (mergeJobStatus (jobStatus proj) tr cg),
                    updatedAt := now\<rparr>) w)"

text \<open>
  A mutation validates its arguments against its declared validators before its handler
  runs, and throws when they do not fit. \<open>saveGeneratedContent\<close> declares one optional
  argument per artifact, of that artifact's shape (for the YouTube timestamps an array
  of objects with a string \<open>timestamp\<close> and a string \<open>description\<close>); only the
  arguments present are written.
\<close>

fun is_string :: "json \<Rightarrow> bool" where
  "is_string (JString s) = True"
| "is_string v = False"

fun descriptions_are_strings :: "YouTubeTimestamp list \<Rightarrow> bool" where
  "descriptions_are_strings [] = True"
| "descriptions_are_strings (y # ys) =
     (is_string (description y) \<and> descriptions_are_strings ys)"

fun artifact_fits :: "JobName \<Rightarrow> artifact option \<Rightarrow> bool" where
  "artifact_fits j None = True"
| "artifact_fits keyMoments (Some (A_keyMoments x)) = True"
| "artifact_fits summary (Some (A_summary x)) = True"
| "artifact_fits socialPosts (Some (A_socialPosts x)) = True"
| "artifact_fits titles (Some (A_titles x)) = True"
| "artifact_fits hashtags (Some (A_hashtags x)) = True"
| "artifact_fits youtubeTimestamps (Some (A_youtubeTimestamps x)) = descriptions_are_strings x"
| "artifact_fits j (Some a) = False"

definition ArgumentValidationError :: js_error where
  "ArgumentValidationError = new_Error (js ''ArgumentValidationError'')"

definition saveGeneratedContent ::
  "nat \<Rightarrow> projectId \<Rightarrow> (JobName \<Rightarrow> artifact option) \<Rightarrow> unit action" where
  "saveGeneratedContent now pid args =
     (if artifact_fits keyMoments (args keyMoments) \<and> artifact_fits summary (args summary) \<and>
         artifact_fits socialPosts (args socialPosts) \<and> artifact_fits titles (args titles) \<and>
         artifact_fits hashtags (args hashtags) \<and>
         artifact_fits youtubeTimestamps (args youtubeTimestamps)
      then db_patch pid (\<lambda>p. p\<lparr>content := content p ++ args, updatedAt := now\<rparr>)
      else throw ArgumentValidationError)"

text \<open>
  \<open>recordError\<close> declares \<open>details\<close> as an optional object (\<open>statusCode\<close>, \<open>stack\<close>):
  a string there is refused.
\<close>

definition recordError ::
  "nat \<Rightarrow> projectId \<Rightarrow> jsstring \<Rightarrow> jsstring \<Rightarrow> details_arg option \<Rightarrow> unit action" where
  "recordError now pid msg step_name details =
     (case details of
        Some (DetailsString s) \<Rightarrow> throw ArgumentValidationError
      | Some (DetailsObject c s) \<Rightarrow>
          db_patch pid (\<lambda>p. p\<lparr>status := failed,
            error := Some (ErrorInfo msg step_name now (Some (c, s))), updatedAt := now\<rparr>)
      | None \<Rightarrow>
          db_patch pid (\<lambda>p. p\<lparr>status := failed,
            error := Some (ErrorInfo msg step_name now None), updatedAt := now\<rparr>))"

text \<open>\<open>saveJobErrors\<close> replaces the whole \<open>jobErrors\<close> field by its argument.\<close>

definition saveJobErrors ::
  "nat \<Rightarrow> projectId \<Rightarrow> (JobName \<Rightarrow> jsstring option) \<Rightarrow> unit action" where
  "saveJobErrors now pid errs =
     db_patch pid (\<lambda>p. p\<lparr>jobErrors := Some errs, updatedAt := now\<rparr>)"

section \<open>Provider replies and schema validation (schemas/ai-outputs)\<close>

text \<open>
  What one wrapped chat-completion call gives its caller: the call throws; or it returns
  with no content (\<open>choices[0]?.message?.content\<close> undefined, null or empty); or with
  content that \<open>JSON.parse\<close> refuses; or with content that parses to a value.
\<close>

datatype 'a completion = Rejects js_error | NoContent | Malformed | Parsed 'a

text \<open>
  The zod checks the schemas use. A property that is missing reads as undefined, which
  no check accepts; properties the schema does not name are dropped.
\<close>

fun property :: "json \<Rightarrow> jsstring \<Rightarrow> json option" where
  "property (JObject kvs) k = map_of kvs k"
| "property v k = None"

fun z_string :: "json option \<Rightarrow> jsstring option" where
  "z_string (Some (JString s)) = Some s"
| "z_string v = None"

definition z_string_max :: "nat \<Rightarrow> json option \<Rightarrow> jsstring option" where
  "z_string_max n v =
     (case z_string v of None \<Rightarrow> None | Some s \<Rightarrow> if length s \<le> n then Some s else None)"

fun string_items :: "json list \<Rightarrow> jsstring list option" where
  "string_items [] = Some []"
| "string_items (v # vs) =
     (case z_string (Some v) of
        None \<Rightarrow> None
      | Some s \<Rightarrow> (case string_items vs of None \<Rightarrow> None | Some ss \<Rightarrow> Some (s # ss)))"

fun z_string_array :: "nat \<Rightarrow> nat \<Rightarrow> json option \<Rightarrow> jsstring list option" where
  "z_string_array lo hi (Some (JArray vs)) =
     (case string_items vs of
        None \<Rightarrow> None
      | Some ss \<Rightarrow> if lo \<le> length ss \<and> length ss \<le> hi then Some ss else None)"
| "z_string_array lo hi v = None"

text \<open>\<open>schema.parse(v)\<close>: the validated value, or None where it throws a ZodError.\<close>

fun is_object :: "json \<Rightarrow> bool" where
  "is_object (JObject kvs) = True"
| "is_object v = False"

definition summarySchema :: "json \<Rightarrow> Summary option" where
  "summarySchema v =
     (if \<not> is_object v then None else
      case (z_string (property v (js ''full'')),
            z_string_array 5 7 (property v (js ''bullets'')),
            z_string_array 3 5 (property v (js ''insights'')),
            z_string (property v (js ''tldr''))) of
        (Some f, Some b, Some i, Some t) \<Rightarrow> Some (Summary f b i t)
      | _ \<Rightarrow> None)"

definition titlesSchema :: "json \<Rightarrow> Titles option" where
  "titlesSchema v =
     (if \<not> is_object v then None else
      case (z_string_array 3 3 (property v (js ''youtubeShort'')),
            z_string_array 3 3 (property v (js ''youtubeLong'')),
            z_string_array 3 3 (property v (js ''podcastTitles'')),
            z_string_array 5 10 (property v (js ''seoKeywords''))) of
        (Some a, Some b, Some c, Some d) \<Rightarrow> Some (Titles a b c d)
      | _ \<Rightarrow> None)"

definition socialPostsSchema :: "json \<Rightarrow> SocialPosts option" where
  "socialPostsSchema v =
     (if \<not> is_object v then None else
      case (z_string_max 280 (property v (js ''twitter'')),
            z_string (property v (js ''linkedin'')),
            z_string (property v (js ''instagram'')),
            z_string (property v (js ''tiktok'')),
            z_string (property v (js ''youtube'')),
            z_string (property v (js ''facebook''))) of
        (Some a, Some b, Some c, Some d, Some e, Some f) \<Rightarrow> Some (SocialPosts a b c d e f)
      | _ \<Rightarrow> None)"

definition hashtagsSchema :: "json \<Rightarrow> Hashtags option" where
  "hashtagsSchema v =
     (if \<not> is_object v then None else
      case (z_string_array 5 5 (property v (js ''youtube'')),
            z_string_array 6 8 (property v (js ''instagram'')),
            z_string_array 5 6 (property v (js ''tiktok'')),
            z_string_array 5 5 (property v (js ''linkedin'')),
            z_string_array 5 5 (property v (js ''twitter''))) of
        (Some a, Some b, Some c, Some d, Some e) \<Rightarrow> Some (Hashtags a b c d e)
      | _ \<Rightarrow> None)"

section \<open>The generation tasks (inngest/steps/ai-generation)\<close>

text \<open>
  A prompt goes to the provider only, and the provider's reply is an input here; what
  the model keeps of a prompt builder is where it throws. \<open>buildSummaryPrompt\<close> and
  \<open>buildTitlesPrompt\<close> read \<open>transcript.chapters.length\<close>, a TypeError on undefined
  chapters; the builders for social posts and hashtags read the chapters with \<open>?.\<close>.
\<close>

definition buildSummaryPrompt_throws :: "TranscriptWithExtras \<Rightarrow> bool" where
  "buildSummaryPrompt_throws t = (chapters t = None)"

definition buildTitlesPrompt_throws :: "TranscriptWithExtras \<Rightarrow> bool" where
  "buildTitlesPrompt_throws t = (chapters t = None)"

text \<open>
  The four tasks below wrap their whole body in a try whose catch returns a fixed
  placeholder: they never throw.
\<close>

definition summary_failed :: Summary where
  "summary_failed =
     Summary
       (WARNING_SIGN @ js '' Error generating summary with GPT-4. Please check logs or try again.'')
       [js ''Summary generation failed - see full transcript'']
       [js ''Error occurred during AI generation'']
       (js ''Summary generation failed'')"

definition generateSummary :: "json completion \<Rightarrow> TranscriptWithExtras \<Rightarrow> Summary" where
  "generateSummary reply t =
     (if buildSummaryPrompt_throws t then summary_failed
      else case reply of
        Rejects e \<Rightarrow> summary_failed
      | NoContent \<Rightarrow>
          Summary (take 500 (transcript_text t)) [js ''Full transcript available'']
            [js ''See transcript''] (take 200 (transcript_text t))
      | Malformed \<Rightarrow> summary_failed
      | Parsed v \<Rightarrow> (case summarySchema v of None \<Rightarrow> summary_failed | Some s \<Rightarrow> s))"

text \<open>
  The placeholder of social-posts.ts opens with the six code units U+201A U+00F6 U+2020
  U+00D4 U+220F U+00E8 that the file holds there (60 code units in all), and its
  Instagram fallback ends with U+F8FF U+00FC U+00E9 U+00F4 U+00D4 U+220F U+00E8.
\<close>

definition socialPosts_failed :: SocialPosts where
  "socialPosts_failed =
     (let m = [8218, 246, 8224, 212, 8719, 232]
              @ js '' Error generating social post. Check logs for details.''
      in SocialPosts m m m m m m)"

definition socialPosts_fallback :: SocialPosts where
  "socialPosts_fallback =
     SocialPosts (js ''New podcast episode!'') (js ''Check out our latest podcast.'')
       (js ''New episode out now! '' @ [63743, 252, 233, 244, 212, 8719, 232])
       (js ''New podcast!'') (js ''Watch our latest episode.'') (js ''New podcast available!'')"

text \<open>The safety check after parsing: a Twitter post over 280 is cut to 277 and "...".\<close>

definition enforceTwitterLimit :: "SocialPosts \<Rightarrow> SocialPosts" where
  "enforceTwitterLimit p =
     (if length (twitter p) > 280
      then SocialPosts (take 277 (twitter p) @ js ''...'') (linkedin p) (instagram p)
             (tiktok p) (youtube p) (facebook p)
      else p)"

definition generateSocialPosts :: "json completion \<Rightarrow> TranscriptWithExtras \<Rightarrow> SocialPosts" where
  "generateSocialPosts reply t =
     (case reply of
        Rejects e \<Rightarrow> socialPosts_failed
      | NoContent \<Rightarrow> enforceTwitterLimit socialPosts_fallback
      | Malformed \<Rightarrow> socialPosts_failed
      | Parsed v \<Rightarrow>
          (case socialPostsSchema v of
             None \<Rightarrow> socialPosts_failed
           | Some p \<Rightarrow> enforceTwitterLimit p))"

definition titles_failed :: Titles where
  "titles_failed =
     Titles [WARNING_SIGN @ js '' Title generation failed'']
       [WARNING_SIGN @ js '' Title generation failed - check logs'']
       [WARNING_SIGN @ js '' Title generation failed''] [js ''error'']"

definition generateTitles :: "json completion \<Rightarrow> TranscriptWithExtras \<Rightarrow> Titles" where
  "generateTitles reply t =
     (if buildTitlesPrompt_throws t then titles_failed
      else case reply of
        Rejects e \<Rightarrow> titles_failed
      | NoContent \<Rightarrow>
          Titles [js ''Podcast Episode''] [js ''Podcast Episode - Full Discussion'']
            [js ''New Episode''] [js ''podcast'']
      | Malformed \<Rightarrow> titles_failed
      | Parsed v \<Rightarrow> (case titlesSchema v of None \<Rightarrow> titles_failed | Some x \<Rightarrow> x))"

definition hashtags_failed :: Hashtags where
  "hashtags_failed =
     (let m = [WARNING_SIGN @ js '' Hashtag generation failed''] in Hashtags m m m m m)"

definition generateHashtags :: "json completion \<Rightarrow> TranscriptWithExtras \<Rightarrow> Hashtags" where
  "generateHashtags reply t =
     (case reply of
        Rejects e \<Rightarrow> hashtags_failed
      | NoContent \<Rightarrow>
          Hashtags [js ''#Podcast''] [js ''#Podcast'', js ''#Content''] [js ''#Podcast'']
            [js ''#Podcast''] [js ''#Podcast'']
      | Malformed \<Rightarrow> hashtags_failed
      | Parsed v \<Rightarrow> (case hashtagsSchema v of None \<Rightarrow> hashtags_failed | Some x \<Rightarrow> x))"

subsection \<open>YouTube timestamps\<close>

text \<open>\<open>String(n)\<close> of a natural number, and \<open>padStart(2, "0")\<close>.\<close>

fun String_of_nat :: "nat \<Rightarrow> jsstring" where
  "String_of_nat n =
     (if n < 10 then [48 + n] else String_of_nat (n div 10) @ [48 + n mod 10])"

definition padStart2 :: "jsstring \<Rightarrow> jsstring" where
  "padStart2 s = replicate (2 - length s) 48 @ s"

text \<open>\<open>formatTimestamp\<close> of lib/format.ts, on whole seconds.\<close>

definition formatTimestamp :: "nat \<Rightarrow> bool \<Rightarrow> bool \<Rightarrow> jsstring" where
  "formatTimestamp seconds padHours forceHours =
     (let hours = seconds div 3600;
          minutes = (seconds mod 3600) div 60;
          secs = seconds mod 60;
          hoursStr = (if padHours then padStart2 (String_of_nat hours) else String_of_nat hours);
          minutesStr = padStart2 (String_of_nat minutes);
          secsStr = padStart2 (String_of_nat secs)
      in if hours > 0 \<or> forceHours
         then hoursStr @ js '':'' @ minutesStr @ js '':'' @ secsStr
         else minutesStr @ js '':'' @ secsStr)"

text \<open>
  The reply of the chapter-title call is used unchecked. \<open>aiTitles\<close> starts as the
  empty array; inside the \<open>try\<close>, \<open>JSON.parse(content)\<close> (the content defaulted to
  an object with empty titles) may throw, reading \<open>.titles\<close> of null throws, and
  otherwise \<open>aiTitles = parsed.titles || []\<close>, any truthy value. The logging that
  follows in the \<open>try\<close> leaves \<open>aiTitles\<close> as assigned.
\<close>

fun truthy :: "json \<Rightarrow> bool" where
  "truthy JNull = False"
| "truthy (JBool b) = b"
| "truthy (JNumber n) = (n \<noteq> 0)"
| "truthy (JString s) = (s \<noteq> [])"
| "truthy (JArray vs) = True"
| "truthy (JObject kvs) = True"

fun aiTitlesOf :: "json completion \<Rightarrow> json" where
  "aiTitlesOf (Parsed v) =
     (case property v (js ''titles'') of
        None \<Rightarrow> JArray []
      | Some x \<Rightarrow> if truthy x then x else JArray [])"
| "aiTitlesOf reply = JArray []"

datatype ChapterData =
  ChapterData (data_index: nat) (data_timestamp: nat) (data_headline: jsstring)
    (data_summary: jsstring) (data_gist: jsstring)

definition chapterDataOf :: "AssemblyAIChapter list \<Rightarrow> ChapterData list" where
  "chapterDataOf chaptersToUse =
     map (\<lambda>(idx, chapter).
            ChapterData idx (chapter_start chapter div 1000) (headline chapter)
              (chapter_summary chapter) (gist chapter))
         (enumerate 0 chaptersToUse)"

text \<open>
  \<open>aiTitles.find((t) => t.index === chapter.index)\<close> on an array: the first element
  whose \<open>index\<close> is the number sought; reading \<open>.index\<close> of a null element on the way
  throws.
\<close>

fun findTitle :: "nat \<Rightarrow> json list \<Rightarrow> js_error + json option" where
  "findTitle idx [] = Inr None"
| "findTitle idx (JNull # ts) =
     Inl (TypeError (js ''Cannot read properties of null (reading '' @ [39] @ js ''index''
            @ [39] @ js '')''))"
| "findTitle idx (t # ts) =
     (if property t (js ''index'') = Some (JNumber (int idx)) then Inr (Some t)
      else findTitle idx ts)"

text \<open>\<open>aiTitle?.title || chapter.headline\<close>: a falsy or missing title falls back.\<close>

definition describe :: "json option \<Rightarrow> ChapterData \<Rightarrow> json" where
  "describe aiTitle chapter =
     (case aiTitle of
        None \<Rightarrow> JString (data_headline chapter)
      | Some t \<Rightarrow>
          (case property t (js ''title'') of
             None \<Rightarrow> JString (data_headline chapter)
           | Some x \<Rightarrow> if truthy x then x else JString (data_headline chapter)))"

text \<open>
  \<open>chapterData.map(...)\<close>, chapter by chapter: the seconds and the description of
  each, or the first exception.
\<close>

fun combineTitles :: "json list \<Rightarrow> ChapterData list \<Rightarrow> js_error + (nat \<times> json) list" where
  "combineTitles aiTitles [] = Inr []"
| "combineTitles aiTitles (chapter # later) =
     (case findTitle (data_index chapter) aiTitles of
        Inl x \<Rightarrow> Inl x
      | Inr aiTitle \<Rightarrow>
          (case combineTitles aiTitles later of
             Inl x \<Rightarrow> Inl x
           | Inr combined \<Rightarrow>
               Inr ((data_timestamp chapter, describe aiTitle chapter) # combined)))"

text \<open>
  The log line after the map puts the descriptions of the first three entries into a
  template string. That conversion throws on an object with a property \<open>toString\<close>
  (which JSON cannot make callable) and on an array that holds such an object.
\<close>

fun stringifies :: "json \<Rightarrow> bool" and stringifies_all :: "json list \<Rightarrow> bool" where
  "stringifies (JArray vs) = stringifies_all vs"
| "stringifies (JObject kvs) = (map_of kvs (js ''toString'') = None)"
| "stringifies JNull = True"
| "stringifies (JBool b) = True"
| "stringifies (JNumber n) = True"
| "stringifies (JString s) = True"
| "stringifies_all [] = True"
| "stringifies_all (v # vs) = (stringifies v \<and> stringifies_all vs)"

text \<open>
  The task. It throws on a transcript without chapters; the completion call is outside
  any \<open>try\<close>, so its exception is the task's; \<open>aiTitles.find\<close> on a value that is not
  an array is a TypeError, outside the \<open>try\<close> as well.
\<close>

definition generateYouTubeTimestamps ::
  "json completion \<Rightarrow> TranscriptWithExtras \<Rightarrow> js_error + YouTubeTimestamp list" where
  "generateYouTubeTimestamps reply t =
     (let chs = (case chapters t of None \<Rightarrow> [] | Some cs \<Rightarrow> cs) in
      if chs = []
      then Inl (new_Error
             (js ''No chapters available from AssemblyAI. Cannot generate YouTube timestamps.''))
      else
        let chaptersToUse = take 100 chs;
            chapterData = chapterDataOf chaptersToUse
        in case reply of
             Rejects e \<Rightarrow> Inl e
           | _ \<Rightarrow>
               (case aiTitlesOf reply of
                  JArray aiTitles \<Rightarrow>
                    (case combineTitles aiTitles chapterData of
                       Inl x \<Rightarrow> Inl x
                     | Inr aiTimestamps \<Rightarrow>
                         if \<not> stringifies_all (map snd (take 3 aiTimestamps))
                         then Inl (TypeError (js ''Cannot convert object to primitive value''))
                         else
                           Inr (map (\<lambda>(seconds, d).
                                  YouTubeTimestamp (formatTimestamp seconds False False) d)
                                aiTimestamps))
                | _ \<Rightarrow> Inl (TypeError (js ''aiTitles.find is not a function''))))"

section \<open>The transcription stage (inngest/steps/transcription)\<close>

text \<open>
  What the transcription provider's \<open>transcribe\<close> call gives: it throws, or it returns a
  response with its status, optional error text, optional text and optional chapters.
\<close>

datatype TranscribeReply =
  TranscribeThrows js_error
  | TranscriptResponse (response_status: jsstring) (response_error: "jsstring option")
      (response_text: "jsstring option") (response_chapters: "AssemblyAIChapter list option")

text \<open>\<open>error instanceof Error ? error.message : fallback\<close>\<close>

fun messageOr :: "jsstring \<Rightarrow> js_error \<Rightarrow> jsstring" where
  "messageOr fallback (Error m s) = m"
| "messageOr fallback (Thrown v) = fallback"

text \<open>
  The stage: a response with status "error" is thrown as a new Error; otherwise the
  transcript is saved (text and chapters, each defaulted when missing) and returned.
  Any exception of that is recorded with step "transcription" and no details, and
  thrown again.
\<close>

definition transcribeWithAssemblyAI ::
  "nat \<Rightarrow> TranscribeReply \<Rightarrow> projectId \<Rightarrow> TranscriptWithExtras action" where
  "transcribeWithAssemblyAI now reply pid =
     tryCatch
       (case reply of
          TranscribeThrows e \<Rightarrow> throw e
        | TranscriptResponse st err txt chs \<Rightarrow>
            if st = js ''error''
            then throw (new_Error
                   (case err of
                      None \<Rightarrow> js ''AssemblyAI transcription failed''
                    | Some m \<Rightarrow> if m = [] then js ''AssemblyAI transcription failed'' else m))
            else
              let assemblyChapters = (case chs of None \<Rightarrow> [] | Some c \<Rightarrow> c);
                  text_or_empty = (case txt of None \<Rightarrow> [] | Some x \<Rightarrow> x);
                  result = TranscriptWithExtras text_or_empty (Some assemblyChapters)
              in andThen (saveTranscript now pid result) (\<lambda>_. succeed result))
       (\<lambda>error.
          andThen
            (recordError now pid (messageOr (js ''Transcription failed'') error)
               (js ''transcription'') None)
            (\<lambda>_. throw error))"

section \<open>The workflow (inngest/functions/podcast-processor.ts)\<close>

text \<open>
  The inputs of one run: the reading of \<open>Date.now()\<close> at each store call (numbered in
  source order), the transcription provider's reply, the reply to each generation
  task's completion call, and the outcome of \<open>generateKeyMoments\<close>, whose file is not
  among the sources: any outcome, a rejection or a list of key moments.
  \<open>step.run\<close> runs its callback and hands its result or its exception on; the engine's
  memoisation and retries are outside the model.
\<close>

record env =
  clock :: "nat \<Rightarrow> nat"
  assemblyai :: TranscribeReply
  gptSummary :: "json completion"
  gptSocialPosts :: "json completion"
  gptTitles :: "json completion"
  gptHashtags :: "json completion"
  gptChapterTitles :: "json completion"
  keyMomentsOutcome :: "js_error + KeyMoment list"

text \<open>The promise of each job: fulfilled with its artifact (\<open>Inr\<close>) or rejected (\<open>Inl\<close>).\<close>

fun runJob :: "env \<Rightarrow> TranscriptWithExtras \<Rightarrow> JobName \<Rightarrow> js_error + artifact" where
  "runJob e t summary = Inr (A_summary (generateSummary (gptSummary e) t))"
| "runJob e t socialPosts = Inr (A_socialPosts (generateSocialPosts (gptSocialPosts e) t))"
| "runJob e t titles = Inr (A_titles (generateTitles (gptTitles e) t))"
| "runJob e t hashtags = Inr (A_hashtags (generateHashtags (gptHashtags e) t))"
| "runJob e t keyMoments =
     (case keyMomentsOutcome e of Inl x \<Rightarrow> Inl x | Inr r \<Rightarrow> Inr (A_keyMoments r))"
| "runJob e t youtubeTimestamps =
     (case generateYouTubeTimestamps (gptChapterTitles e) t of
        Inl x \<Rightarrow> Inl x
      | Inr r \<Rightarrow> Inr (A_youtubeTimestamps r))"

text \<open>The names pushed to \<open>jobNames\<close>, each with its job, for a plan.\<close>

definition jobNames :: "PlanName \<Rightarrow> JobName list" where
  "jobNames plan =
     [summary]
     @ (if plan = Pro \<or> plan = Ultra then [socialPosts, titles, hashtags] else [])
     @ (if plan = Ultra then [keyMoments, youtubeTimestamps] else [])"

text \<open>Invoking the jobs of these names: each goes to the log of invoked tasks.\<close>

definition launch :: "JobName list \<Rightarrow> unit action" where
  "launch names w = (Inr (), w\<lparr>launched := launched w @ names\<rparr>)"

text \<open>
  The two \<open>forEach\<close> passes over the settled results: \<open>generatedContent[jobName] = value\<close>
  for a fulfilled one, \<open>jobErrors[jobName] = message\<close> for a rejected one.
\<close>

definition collectContent ::
  "JobName list \<Rightarrow> (js_error + artifact) list \<Rightarrow> (JobName \<times> artifact) list" where
  "collectContent names results =
     foldl (\<lambda>generatedContent (jobName, result).
              case result of
                Inr v \<Rightarrow> AList.update jobName v generatedContent
              | Inl reason \<Rightarrow> generatedContent)
       [] (zip names results)"

text \<open>\<open>result.reason instanceof Error ? result.reason.message : String(result.reason)\<close>\<close>

fun String_of_reason :: "js_error \<Rightarrow> jsstring" where
  "String_of_reason (Error m s) = m"
| "String_of_reason (Thrown v) = v"

definition collectErrors ::
  "JobName list \<Rightarrow> (js_error + artifact) list \<Rightarrow> (JobName \<times> jsstring) list" where
  "collectErrors names results =
     foldl (\<lambda>jobErrors (jobName, result).
              case result of
                Inl reason \<Rightarrow> AList.update jobName (String_of_reason reason) jobErrors
              | Inr v \<Rightarrow> jobErrors)
       [] (zip names results)"

text \<open>
  \<open>saveResultsToConvex\<close> (inngest/steps/persistence/save-to-convex.ts): the six fields
  of the results go to \<open>saveGeneratedContent\<close>, then the status becomes completed.
\<close>

definition saveResultsToConvex ::
  "nat \<Rightarrow> nat \<Rightarrow> projectId \<Rightarrow> (JobName \<Rightarrow> artifact option) \<Rightarrow> unit action" where
  "saveResultsToConvex now1 now2 pid results =
     andThen (saveGeneratedContent now1 pid results)
       (\<lambda>_. updateProjectStatus now2 pid completed)"

text \<open>
  The body of the \<open>try\<close> block of \<open>podcastProcessor\<close>, step by step;
  \<open>Promise.allSettled\<close> waits for every job and never rejects.
\<close>

definition workflow :: "env \<Rightarrow> projectId \<Rightarrow> PlanName \<Rightarrow> PlanName action" where
  "workflow e pid plan =
     andThen (updateProjectStatus (clock e 0) pid processing) (\<lambda>_.
     andThen (updateJobStatus (clock e 1) pid (Some running) None) (\<lambda>_.
     andThen (transcribeWithAssemblyAI (clock e 2) (assemblyai e) pid) (\<lambda>transcript.
     andThen (updateJobStatus (clock e 3) pid (Some phase_completed) None) (\<lambda>_.
     andThen (updateJobStatus (clock e 4) pid None (Some running)) (\<lambda>_.
     andThen (launch (jobNames plan)) (\<lambda>_.
       let results = map (runJob e transcript) (jobNames plan);
           generatedContent = collectContent (jobNames plan) results;
           jobErrors = collectErrors (jobNames plan) results
       in
     andThen (if jobErrors \<noteq> []
              then saveJobErrors (clock e 5) pid (map_of jobErrors)
              else succeed ()) (\<lambda>_.
     andThen (updateJobStatus (clock e 6) pid None (Some phase_completed)) (\<lambda>_.
     andThen (saveResultsToConvex (clock e 7) (clock e 8) pid (map_of generatedContent)) (\<lambda>_.
     succeed plan)))))))))"

text \<open>\<open>details: error instanceof Error ? error.stack : String(error)\<close>\<close>

fun detailsOf :: "js_error \<Rightarrow> details_arg option" where
  "detailsOf (Error m s) = Some (DetailsString s)"
| "detailsOf (Thrown v) = Some (DetailsString v)"

text \<open>
  The function of the \<open>podcast/uploaded\<close> event: the plan defaults to free; for an
  exception of the body the handler calls \<open>recordError\<close> with step "workflow" and the
  stack (or the stringified value) as details, swallows a failure of that call, and
  throws the exception again.
\<close>

definition podcastProcessor :: "env \<Rightarrow> projectId \<Rightarrow> PlanName option \<Rightarrow> PlanName action" where
  "podcastProcessor e pid userPlan =
     (let plan = (case userPlan of None \<Rightarrow> Free | Some p \<Rightarrow> p) in
      tryCatch (workflow e pid plan)
        (\<lambda>error.
           andThen
             (tryCatch
                (recordError (clock e 9) pid (messageOr (js ''Unknown error occurred'') error)
                   (js ''workflow'') (detailsOf error))
                (\<lambda>cleanupError. succeed ()))
             (\<lambda>_. throw error)))"

section \<open>Retrying one job (retryJobFunction)\<close>

datatype RetryJobEvent =
  RetryJobEvent (event_projectId: projectId) (event_job: JobName) (event_userId: jsstring)
    (originalPlan: "PlanName option") (currentPlan: "PlanName option")

text \<open>The messages of the two errors that name the job.\<close>

definition notAvailableMessage :: "JobName \<Rightarrow> jsstring" where
  "notAvailableMessage job =
     js ''This feature ('' @ jobString job
       @ js '') is not available on your current plan. Please upgrade to access it.''"

definition noChaptersMessage :: "JobName \<Rightarrow> jsstring" where
  "noChaptersMessage job =
     js ''Cannot generate '' @ jobString job
       @ js '': transcript has no chapters. This podcast may be too short or lack distinct topics for chapter detection.''"

definition jobsRequiringChapters :: "JobName list" where
  "jobsRequiringChapters = [keyMoments, youtubeTimestamps]"

text \<open>The \<open>clear-job-error\<close> step: the errors read with the project, without the job's.\<close>

definition clearJobError :: "nat \<Rightarrow> projectId \<Rightarrow> project \<Rightarrow> JobName \<Rightarrow> unit action" where
  "clearJobError now pid proj job =
     (let currentErrors = (case jobErrors proj of None \<Rightarrow> Map.empty | Some m \<Rightarrow> m);
          updatedErrors = currentErrors(job := None)
      in saveJobErrors now pid updatedErrors)"

text \<open>
  The \<open>switch\<close> over the job: generate, then save that one artifact with
  \<open>saveGeneratedContent\<close>.
\<close>

definition regenerate ::
  "env \<Rightarrow> projectId \<Rightarrow> TranscriptWithExtras \<Rightarrow> JobName \<Rightarrow> unit action" where
  "regenerate e pid t job =
     andThen (launch [job]) (\<lambda>_.
       case runJob e t job of
         Inl x \<Rightarrow> throw x
       | Inr result \<Rightarrow> saveGeneratedContent (clock e 0) pid (Map.empty(job \<mapsto> result)))"

text \<open>
  The function of the \<open>podcast/retry-job\<close> event. Its store calls read the clock at
  0 (saving the artifact), 1 (clearing the job's error) and 2 (saving the error).
\<close>

definition retryJobFunction :: "env \<Rightarrow> RetryJobEvent \<Rightarrow> JobName action" where
  "retryJobFunction e ev =
     (let pid = event_projectId ev;
          job = event_job ev;
          currentUserPlan = (case currentPlan ev of None \<Rightarrow> Free | Some p \<Rightarrow> p)
      in
      if (case jobToFeature job of
            None \<Rightarrow> False
          | Some featureKey \<Rightarrow> \<not> planHasFeature currentUserPlan featureKey)
      then throw (new_Error (notAvailableMessage job))
      else
        andThen (getProject pid) (\<lambda>found.
          case found of
            None \<Rightarrow> throw (new_Error (js ''Project or transcript not found''))
          | Some proj \<Rightarrow>
             (case transcript proj of
                None \<Rightarrow> throw (new_Error (js ''Project or transcript not found''))
              | Some t \<Rightarrow>
                  if transcript_text t = []
                  then throw (new_Error
                    (js ''Cannot generate content: transcript text is empty. Please re-upload the file.''))
                  else if List.member jobsRequiringChapters job \<and>
                          (chapters t = None \<or> chapters t = Some [])
                  then throw (new_Error (noChaptersMessage job))
                  else
                    tryCatch
                      (andThen (regenerate e pid t job) (\<lambda>_.
                       andThen (clearJobError (clock e 1) pid proj job) (\<lambda>_.
                       succeed job)))
                      (\<lambda>error.
                         andThen
                           (saveJobErrors (clock e 2) pid
                              (Map.empty(job \<mapsto> messageOr (js ''Unknown error'') error)))
                           (\<lambda>_. throw error)))))"

section \<open>Generating what a plan adds (the generateMissingFeatures server action)\<close>

text \<open>
  The signed-in user as \<open>auth()\<close> returns it: the user id, and \<open>has\<close>, asked here for a
  plan only.
\<close>

datatype AuthObject =
  AuthObject (auth_userId: "jsstring option") (auth_has: "(PlanName \<Rightarrow> bool) option")

definition planOfAuth :: "AuthObject \<Rightarrow> PlanName" where
  "planOfAuth authObj =
     (case auth_has authObj of
        None \<Rightarrow> Free
      | Some has_plan \<Rightarrow> if has_plan Ultra then Ultra else if has_plan Pro then Pro else Free)"

definition inferOriginalPlan :: "project \<Rightarrow> PlanName" where
  "inferOriginalPlan p =
     (if content p keyMoments \<noteq> None \<or> content p youtubeTimestamps \<noteq> None then Ultra
      else if content p socialPosts \<noteq> None \<or> content p titles \<noteq> None \<or>
              content p hashtags \<noteq> None then Pro
      else Free)"

text \<open>The loop over the plan's features that fills \<open>missingJobs\<close>.\<close>

definition missingJobsOf :: "PlanName \<Rightarrow> project \<Rightarrow> JobName list" where
  "missingJobsOf plan p =
     foldl (\<lambda>missingJobs feature.
              case FEATURE_TO_JOB_MAP feature of
                None \<Rightarrow> missingJobs
              | Some jobName \<Rightarrow>
                  if content p jobName \<noteq> None then missingJobs else missingJobs @ [jobName])
       [] (PLAN_FEATURES plan)"

text \<open>
  The action returns the jobs it asked for, or throws; beside it, the retry events it
  sent, one \<open>inngest.send\<close> each.
\<close>

definition generateMissingFeatures ::
  "AuthObject \<Rightarrow> projectId \<Rightarrow> world \<Rightarrow> (js_error + JobName list) \<times> RetryJobEvent list" where
  "generateMissingFeatures authObj pid w =
     (case auth_userId authObj of
        None \<Rightarrow> (Inl (new_Error (js ''Unauthorized'')), [])
      | Some uid \<Rightarrow>
          if uid = [] then (Inl (new_Error (js ''Unauthorized'')), [])
          else
            let plan = planOfAuth authObj in
            case docs w pid of
              None \<Rightarrow> (Inl (new_Error (js ''Project not found'')), [])
            | Some proj \<Rightarrow>
                if userId proj \<noteq> uid
                then (Inl (new_Error (js ''Unauthorized - not your project'')), [])
                else
                  let original = inferOriginalPlan proj;
                      missingJobs = missingJobsOf plan proj
                  in if missingJobs = []
                     then (Inl (new_Error
                       (js ''No missing features to generate. All features for your plan are already available.'')),
                       [])
                     else (Inr missingJobs,
                           map (\<lambda>job. RetryJobEvent pid job uid (Some original) (Some plan))
                             missingJobs))"

section \<open>Concrete runs\<close>

text \<open>
  A project as \<open>createProject\<close> leaves it, alone in the store under id 7; a transcript
  of one chapter; and provider behaviours for the runs evaluated below.
\<close>

definition project0 :: project where
  "project0 =
     \<lparr>userId = js ''user_1'', status = uploaded,
      jobStatus = Some \<lparr>transcription = Some pending, contentGeneration = Some pending\<rparr>,
      error = None, jobErrors = None, transcript = None, content = Map.empty,
      updatedAt = 0, completedAt = None\<rparr>"

definition world0 :: world where
  "world0 = \<lparr>docs = Map.empty(7 \<mapsto> project0), launched = []\<rparr>"

definition chapter0 :: AssemblyAIChapter where
  "chapter0 =
     AssemblyAIChapter 0 65000 (js ''Intro'') (js ''Welcome to the show'')
       (js ''The hosts introduce the episode'')"

definition rate_limited :: js_error where
  "rate_limited = Error (js ''429 rate limit'') (js ''Error: 429 rate limit'')"

text \<open>Transcription succeeds; every completion call and the key-moments task fail.\<close>

definition env_all_fail :: env where
  "env_all_fail =
     \<lparr>clock = (\<lambda>k. 1000 + k),
      assemblyai =
        TranscriptResponse (js ''completed'') None (Some (js ''hello world'')) (Some [chapter0]),
      gptSummary = Rejects rate_limited, gptSocialPosts = Rejects rate_limited,
      gptTitles = Rejects rate_limited, gptHashtags = Rejects rate_limited,
      gptChapterTitles = Rejects rate_limited,
      keyMomentsOutcome = Inl rate_limited\<rparr>"

text \<open>The transcription provider reports an error.\<close>

definition env_provider_error :: env where
  "env_provider_error =
     env_all_fail\<lparr>assemblyai :=
       TranscriptResponse (js ''error'') (Some (js ''Audio file could not be decoded'')) None None\<rparr>"


definition reply_null_title :: "json completion" where
  "reply_null_title = Parsed (JObject [(js ''titles'', JArray [JNull])])"


text \<open>
  The provider returns well-formed social posts whose Twitter post has 310 characters;
  and a transcript with the one chapter above.
\<close>

definition twitter310 :: jsstring where
  "twitter310 = replicate 310 97"

definition reply_twitter_310 :: "json completion" where
  "reply_twitter_310 =
     Parsed (JObject
       [(js ''twitter'', JString twitter310), (js ''linkedin'', JString (js ''A new episode''))
       , (js ''instagram'', JString (js ''A new episode''))
       , (js ''tiktok'', JString (js ''A new episode''))
       , (js ''youtube'', JString (js ''A new episode''))
       , (js ''facebook'', JString (js ''A new episode''))])"

definition transcript0 :: TranscriptWithExtras where
  "transcript0 = TranscriptWithExtras (js ''hello world'') (Some [chapter0])"

text \<open>A run in which the social-posts call returns that reply.\<close>

definition env_twitter_310 :: env where
  "env_twitter_310 = env_all_fail\<lparr>gptSocialPosts := reply_twitter_310\<rparr>"

text \<open>
  A completed project of \<open>user_1\<close> that holds a summary and nothing else, and that user
  signed in on the pro plan.
\<close>

definition summary0 :: Summary where
  "summary0 =
     Summary (js ''An overview'') [js ''one'', js ''two'', js ''three'', js ''four'', js ''five'']
       [js ''first'', js ''second'', js ''third''] (js ''In short'')"

definition project_with_summary :: project where
  "project_with_summary =
     project0\<lparr>status := completed,
       transcript := Some (TranscriptWithExtras (js ''hello world'') (Some [])),
       content := Map.empty(summary \<mapsto> A_summary summary0)\<rparr>"

definition world_with_summary :: world where
  "world_with_summary = \<lparr>docs = Map.empty(7 \<mapsto> project_with_summary), launched = []\<rparr>"

definition auth_pro :: AuthObject where
  "auth_pro = AuthObject (Some (js ''user_1'')) (Some (\<lambda>plan. plan = Pro))"

text \<open>
  A completed ultra project with a transcript of one chapter, on which two jobs failed
  earlier: the titles and the YouTube timestamps. And the event that retries the
  YouTube timestamps on it, on the ultra plan.
\<close>

definition project_two_errors :: project where
  "project_two_errors =
     project0\<lparr>status := completed, transcript := Some transcript0,
       content := Map.empty(summary \<mapsto> A_summary summary0),
       jobErrors := Some (Map.empty(titles \<mapsto> js ''Request timed out'',
                                    youtubeTimestamps \<mapsto> js ''Request timed out''))\<rparr>"

definition world_two_errors :: world where
  "world_two_errors = \<lparr>docs = Map.empty(7 \<mapsto> project_two_errors), launched = []\<rparr>"

definition retry_youtube :: RetryJobEvent where
  "retry_youtube = RetryJobEvent 7 youtubeTimestamps (js ''user_1'') (Some Ultra) (Some Ultra)"

text \<open>
  The same retry, after an upgrade from free to ultra, on the project with a summary
  and a transcript that has text and no chapter.
\<close>

definition retry_youtube_after_upgrade :: RetryJobEvent where
  "retry_youtube_after_upgrade =
     RetryJobEvent 7 youtubeTimestamps (js ''user_1'') (Some Free) (Some Ultra)"

text \<open>
  What the YouTube-timestamps task hands to \<open>saveGeneratedContent\<close> passes that
  mutation's validator: the task rejects (nothing is handed over), or every description
  of its artifact is a string.
\<close>

definition timestamps_fit :: "env \<Rightarrow> TranscriptWithExtras \<Rightarrow> bool" where
  "timestamps_fit e t =
     artifact_fits youtubeTimestamps
       (case runJob e t youtubeTimestamps of Inl x \<Rightarrow> None | Inr a \<Rightarrow> Some a)"

section \<open>Properties\<close>

subsection \<open>Strings and the store\<close>

lemma js_eq_iff: "js a = js b \<longleftrightarrow> a = b"
  unfolding js_def by (simp add: inj_map_eq_map inj_on_def)

lemma db_patch_present:
  "docs w pid = Some p \<Longrightarrow> db_patch pid f w = (Inr (), w\<lparr>docs := (docs w)(pid \<mapsto> f p)\<rparr>)"
  by (simp add: db_patch_def)

lemma updateProjectStatus_present:
  "docs w pid = Some p \<Longrightarrow>
   updateProjectStatus now pid st w =
     (Inr (), w\<lparr>docs := (docs w)(pid \<mapsto>
        if st = completed then p\<lparr>status := st, updatedAt := now, completedAt := Some now\<rparr>
        else p\<lparr>status := st, updatedAt := now\<rparr>)\<rparr>)"
  by (simp add: updateProjectStatus_def db_patch_present)

lemma updateJobStatus_present:
  "docs w pid = Some p \<Longrightarrow>
   updateJobStatus now pid tr cg w =
     (Inr (), w\<lparr>docs := (docs w)(pid \<mapsto>
        p\<lparr>jobStatus := Some (mergeJobStatus (jobStatus p) tr cg), updatedAt := now\<rparr>)\<rparr>)"
  by (simp add: updateJobStatus_def db_patch_present)

lemma saveTranscript_present:
  "docs w pid = Some p \<Longrightarrow>
   saveTranscript now pid t w =
     (Inr (), w\<lparr>docs := (docs w)(pid \<mapsto> p\<lparr>transcript := Some t, updatedAt := now\<rparr>)\<rparr>)"
  by (simp add: saveTranscript_def db_patch_present)

lemma saveJobErrors_present:
  "docs w pid = Some p \<Longrightarrow>
   saveJobErrors now pid errs w =
     (Inr (), w\<lparr>docs := (docs w)(pid \<mapsto> p\<lparr>jobErrors := Some errs, updatedAt := now\<rparr>)\<rparr>)"
  by (simp add: saveJobErrors_def db_patch_present)

lemma recordError_present:
  "docs w pid = Some p \<Longrightarrow>
   recordError now pid msg step_name None w =
     (Inr (), w\<lparr>docs := (docs w)(pid \<mapsto> p\<lparr>status := failed,
        error := Some (ErrorInfo msg step_name now None), updatedAt := now\<rparr>)\<rparr>)"
  by (simp add: recordError_def db_patch_present)

lemma recordError_string:
  "recordError now pid msg step_name (Some (DetailsString s)) w =
     (Inl ArgumentValidationError, w)"
  by (simp add: recordError_def throw_def)

lemma saveGeneratedContent_present:
  "docs w pid = Some p \<Longrightarrow> (\<And>j. artifact_fits j (args j)) \<Longrightarrow>
   saveGeneratedContent now pid args w =
     (Inr (), w\<lparr>docs := (docs w)(pid \<mapsto> p\<lparr>content := content p ++ args, updatedAt := now\<rparr>)\<rparr>)"
  by (simp add: saveGeneratedContent_def db_patch_present)

lemma saveResultsToConvex_present:
  "docs w pid = Some p \<Longrightarrow> (\<And>j. artifact_fits j (args j)) \<Longrightarrow>
   saveResultsToConvex now1 now2 pid args w =
     (Inr (), w\<lparr>docs := (docs w)(pid \<mapsto>
        p\<lparr>content := content p ++ args, status := completed, updatedAt := now2,
          completedAt := Some now2\<rparr>)\<rparr>)"
  by (simp add: saveResultsToConvex_def andThen_def saveGeneratedContent_present
      updateProjectStatus_present)

lemma transcription_mergeJobStatus:
  "transcription (mergeJobStatus old tr cg) =
     (case tr of Some x \<Rightarrow> Some x
      | None \<Rightarrow> (case old of None \<Rightarrow> None | Some s \<Rightarrow> transcription s))"
  by (simp add: mergeJobStatus_def Let_def split: option.splits)

lemma contentGeneration_mergeJobStatus:
  "contentGeneration (mergeJobStatus old tr cg) =
     (case cg of Some x \<Rightarrow> Some x
      | None \<Rightarrow> (case old of None \<Rightarrow> None | Some s \<Rightarrow> contentGeneration s))"
  by (simp add: mergeJobStatus_def Let_def split: option.splits)

subsection \<open>Collecting the settled results\<close>

lemma map_of_collectContent_acc:
  "map_of (foldl (\<lambda>generatedContent (jobName, result).
              case result of
                Inr v \<Rightarrow> AList.update jobName v generatedContent
              | Inl reason \<Rightarrow> generatedContent) acc (zip names (map f names))) j =
   (if j \<in> set names then (case f j of Inr v \<Rightarrow> Some v | Inl x \<Rightarrow> map_of acc j)
    else map_of acc j)"
proof (induction names arbitrary: acc)
  case Nil
  then show ?case by simp
next
  case (Cons n ns)
  show ?case
    by (cases "f n") (auto simp: Cons.IH update_conv' split: sum.splits)
qed

lemma map_of_collectContent:
  "map_of (collectContent names (map f names)) j =
   (if j \<in> set names then (case f j of Inr v \<Rightarrow> Some v | Inl x \<Rightarrow> None) else None)"
  unfolding collectContent_def by (simp add: map_of_collectContent_acc split: sum.splits)

lemma map_of_collectErrors_acc:
  "map_of (foldl (\<lambda>jobErrors (jobName, result).
              case result of
                Inl reason \<Rightarrow> AList.update jobName (String_of_reason reason) jobErrors
              | Inr v \<Rightarrow> jobErrors) acc (zip names (map f names))) j =
   (if j \<in> set names
    then (case f j of Inl x \<Rightarrow> Some (String_of_reason x) | Inr v \<Rightarrow> map_of acc j)
    else map_of acc j)"
proof (induction names arbitrary: acc)
  case Nil
  then show ?case by simp
next
  case (Cons n ns)
  show ?case
    by (cases "f n") (auto simp: Cons.IH update_conv' split: sum.splits)
qed

lemma map_of_collectErrors:
  "map_of (collectErrors names (map f names)) j =
   (if j \<in> set names then (case f j of Inl x \<Rightarrow> Some (String_of_reason x) | Inr v \<Rightarrow> None)
    else None)"
  unfolding collectErrors_def by (simp add: map_of_collectErrors_acc split: sum.splits)

lemma in_dom_collectContent:
  "j \<in> dom (map_of (collectContent names (map f names))) \<longleftrightarrow>
   j \<in> set names \<and> (\<exists>v. f j = Inr v)"
  by (cases "f j") (simp_all add: domIff map_of_collectContent)

lemma in_dom_collectErrors:
  "j \<in> dom (map_of (collectErrors names (map f names))) \<longleftrightarrow>
   j \<in> set names \<and> (\<exists>x. f j = Inl x)"
  by (cases "f j") (simp_all add: domIff map_of_collectErrors)

lemma dom_collectContent:
  "dom (map_of (collectContent names (map f names))) = {j \<in> set names. \<exists>v. f j = Inr v}"
  using in_dom_collectContent [of _ names f] by blast

lemma dom_collectErrors:
  "dom (map_of (collectErrors names (map f names))) = {j \<in> set names. \<exists>x. f j = Inl x}"
  using in_dom_collectErrors [of _ names f] by blast

lemma collectErrors_empty_iff:
  "collectErrors names (map f names) = [] \<longleftrightarrow> {j \<in> set names. \<exists>x. f j = Inl x} = {}"
proof -
  have "collectErrors names (map f names) = [] \<longleftrightarrow>
        dom (map_of (collectErrors names (map f names))) = {}"
    by (simp add: map_of_eq_empty_iff)
  then show ?thesis by (simp only: dom_collectErrors)
qed

text \<open>
  Every task but the YouTube timestamps fulfils with an artifact the store accepts; the
  YouTube timestamps are accepted when every description is a string.
\<close>

lemma runJob_fits:
  "j \<noteq> youtubeTimestamps \<Longrightarrow> runJob e t j = Inr a \<Longrightarrow> artifact_fits j (Some a)"
  by (cases j) (auto split: sum.splits)

lemma collected_fits:
  assumes "youtubeTimestamps \<in> set names \<Longrightarrow> timestamps_fit e t"
  shows "artifact_fits j (map_of (collectContent names (map (runJob e t) names)) j)"
proof (cases "j = youtubeTimestamps")
  case True
  then show ?thesis
    using assms
    by (cases "runJob e t youtubeTimestamps")
       (simp_all add: map_of_collectContent timestamps_fit_def)
next
  case False
  then show ?thesis
    by (cases "runJob e t j") (simp_all add: map_of_collectContent runJob_fits)
qed


lemma jobNames_Pro: "jobNames Pro = [summary, socialPosts, titles, hashtags]"
  by (simp add: jobNames_def)

lemma jobNames_Ultra:
  "jobNames Ultra = [summary, socialPosts, titles, hashtags, keyMoments, youtubeTimestamps]"
  by (simp add: jobNames_def)

lemma no_rejection_below_ultra:
  "plan \<noteq> Ultra \<Longrightarrow> {j \<in> set (jobNames plan). \<exists>x. runJob e t j = Inl x} = {}"
  by (cases plan) (auto simp: jobNames_def)

text \<open>
  C3. After all launched tasks have settled, the names with a fulfilled result (the keys
  of \<open>generatedContent\<close>) and the names with a rejected one (the keys of \<open>jobErrors\<close>)
  partition the launched names, whatever list of names is launched and whatever the
  providers reply.
\<close>

theorem fan_out_partition:
  "dom (map_of (collectContent names (map (runJob e t) names))) \<union>
     dom (map_of (collectErrors names (map (runJob e t) names))) = set names \<and>
   dom (map_of (collectContent names (map (runJob e t) names))) \<inter>
     dom (map_of (collectErrors names (map (runJob e t) names))) = {}"
proof -
  have settled: "(\<exists>v. runJob e t j = Inr v) \<or> (\<exists>x. runJob e t j = Inl x)" for j
    by (cases "runJob e t j") simp_all
  show ?thesis
    unfolding dom_collectContent dom_collectErrors using settled by auto
qed

subsection \<open>A run whose transcription succeeds\<close>

lemma transcribe_succeeds:
  "docs w pid = Some p \<Longrightarrow> st \<noteq> js ''error'' \<Longrightarrow>
   transcribeWithAssemblyAI now (TranscriptResponse st err txt chs) pid w =
     (Inr (TranscriptWithExtras (case txt of None \<Rightarrow> [] | Some x \<Rightarrow> x)
             (Some (case chs of None \<Rightarrow> [] | Some c \<Rightarrow> c))),
      w\<lparr>docs := (docs w)(pid \<mapsto>
        p\<lparr>transcript := Some (TranscriptWithExtras (case txt of None \<Rightarrow> [] | Some x \<Rightarrow> x)
             (Some (case chs of None \<Rightarrow> [] | Some c \<Rightarrow> c))), updatedAt := now\<rparr>)\<rparr>)"
  by (simp add: transcribeWithAssemblyAI_def tryCatch_def andThen_def succeed_def
      saveTranscript_present Let_def)

lemma workflow_completes:
  fixes plan :: PlanName
  assumes present: "docs w pid = Some p"
    and reply: "assemblyai e = TranscriptResponse st err txt chs"
    and ok: "st \<noteq> js ''error''"
    and fits: "youtubeTimestamps \<in> set (jobNames plan) \<Longrightarrow>
      timestamps_fit e (TranscriptWithExtras (case txt of None \<Rightarrow> [] | Some x \<Rightarrow> x)
             (Some (case chs of None \<Rightarrow> [] | Some c \<Rightarrow> c)))"
  defines "t \<equiv> TranscriptWithExtras (case txt of None \<Rightarrow> [] | Some x \<Rightarrow> x)
             (Some (case chs of None \<Rightarrow> [] | Some c \<Rightarrow> c))"
  defines "results \<equiv> map (runJob e t) (jobNames plan)"
  defines "w' \<equiv> snd (workflow e pid plan w)"
  shows "fst (workflow e pid plan w) = Inr plan"
    and "launched w' = launched w @ jobNames plan"
    and "\<exists>p'. docs w' pid = Some p' \<and>
         status p' = completed \<and> completedAt p' = Some (clock e 8) \<and>
         (\<exists>s. jobStatus p' = Some s \<and> transcription s = Some phase_completed \<and>
              contentGeneration s = Some phase_completed) \<and>
         content p' = content p ++ map_of (collectContent (jobNames plan) results) \<and>
         jobErrors p' =
           (if collectErrors (jobNames plan) results = [] then jobErrors p
            else Some (map_of (collectErrors (jobNames plan) results))) \<and>
         transcript p' = Some t \<and> error p' = error p \<and> userId p' = userId p"
proof -
  note steps = reply andThen_def succeed_def launch_def Let_def
      updateProjectStatus_present updateJobStatus_present transcribe_succeeds
      saveJobErrors_present saveResultsToConvex_present collected_fits [OF fits]
  show "fst (workflow e pid plan w) = Inr plan"
    unfolding workflow_def using present ok by (simp add: steps)
  show "launched w' = launched w @ jobNames plan"
    unfolding w'_def workflow_def using present ok by (simp add: steps)
  show "\<exists>p'. docs w' pid = Some p' \<and>
         status p' = completed \<and> completedAt p' = Some (clock e 8) \<and>
         (\<exists>s. jobStatus p' = Some s \<and> transcription s = Some phase_completed \<and>
              contentGeneration s = Some phase_completed) \<and>
         content p' = content p ++ map_of (collectContent (jobNames plan) results) \<and>
         jobErrors p' =
           (if collectErrors (jobNames plan) results = [] then jobErrors p
            else Some (map_of (collectErrors (jobNames plan) results))) \<and>
         transcript p' = Some t \<and> error p' = error p \<and> userId p' = userId p"
    unfolding w'_def workflow_def results_def t_def using present ok
    by (simp add: steps transcription_mergeJobStatus contentGeneration_mergeJobStatus)
qed

lemma podcastProcessor_of_workflow:
  "fst (workflow e pid (case userPlan of None \<Rightarrow> Free | Some x \<Rightarrow> x) w) = Inr r \<Longrightarrow>
   podcastProcessor e pid userPlan w =
     workflow e pid (case userPlan of None \<Rightarrow> Free | Some x \<Rightarrow> x) w"
  by (cases "workflow e pid (case userPlan of None \<Rightarrow> Free | Some x \<Rightarrow> x) w")
     (simp add: podcastProcessor_def tryCatch_def Let_def)

lemma processor_completes:
  fixes userPlan :: "PlanName option"
  assumes present: "docs w pid = Some p"
    and reply: "assemblyai e = TranscriptResponse st err txt chs"
    and ok: "st \<noteq> js ''error''"
    and fits: "youtubeTimestamps \<in> set (jobNames (case userPlan of None \<Rightarrow> Free | Some x \<Rightarrow> x))
      \<Longrightarrow> timestamps_fit e (TranscriptWithExtras (case txt of None \<Rightarrow> [] | Some x \<Rightarrow> x)
             (Some (case chs of None \<Rightarrow> [] | Some c \<Rightarrow> c)))"
  defines "plan \<equiv> case userPlan of None \<Rightarrow> Free | Some x \<Rightarrow> x"
  defines "t \<equiv> TranscriptWithExtras (case txt of None \<Rightarrow> [] | Some x \<Rightarrow> x)
             (Some (case chs of None \<Rightarrow> [] | Some c \<Rightarrow> c))"
  defines "w' \<equiv> snd (podcastProcessor e pid userPlan w)"
  shows "fst (podcastProcessor e pid userPlan w) = Inr plan"
    and "launched w' = launched w @ jobNames plan"
    and "\<exists>p' s. docs w' pid = Some p' \<and>
         status p' = completed \<and> completedAt p' = Some (clock e 8) \<and>
         jobStatus p' = Some s \<and> transcription s = Some phase_completed \<and>
         contentGeneration s = Some phase_completed \<and>
         (\<forall>j. content p' j =
            (if j \<in> set (jobNames plan)
             then (case runJob e t j of Inr v \<Rightarrow> Some v | Inl x \<Rightarrow> content p j)
             else content p j)) \<and>
         jobErrors p' =
            (if {j \<in> set (jobNames plan). \<exists>x. runJob e t j = Inl x} = {} then jobErrors p
             else Some (\<lambda>j. if j \<in> set (jobNames plan)
                    then (case runJob e t j of
                            Inl x \<Rightarrow> Some (String_of_reason x) | Inr v \<Rightarrow> None)
                    else None)) \<and>
         transcript p' = Some t \<and> error p' = error p \<and> userId p' = userId p"
proof -
  have fits': "youtubeTimestamps \<in> set (jobNames plan) \<Longrightarrow>
      timestamps_fit e (TranscriptWithExtras (case txt of None \<Rightarrow> [] | Some x \<Rightarrow> x)
             (Some (case chs of None \<Rightarrow> [] | Some c \<Rightarrow> c)))"
    using fits unfolding plan_def .
  have ok': "fst (workflow e pid plan w) = Inr plan"
    using present reply ok fits' by (rule workflow_completes(1))
  have same: "podcastProcessor e pid userPlan w = workflow e pid plan w"
    unfolding plan_def using ok' [unfolded plan_def] by (rule podcastProcessor_of_workflow)
  show "fst (podcastProcessor e pid userPlan w) = Inr plan"
    using ok' same by simp
  show "launched w' = launched w @ jobNames plan"
    unfolding w'_def same using present reply ok fits' by (rule workflow_completes(2))
  from workflow_completes(3) [OF present reply ok fits']
  obtain p' s where p': "docs (snd (workflow e pid plan w)) pid = Some p'"
    "status p' = completed" "completedAt p' = Some (clock e 8)"
    "jobStatus p' = Some s" "transcription s = Some phase_completed"
    "contentGeneration s = Some phase_completed"
    "content p' =
       content p ++ map_of (collectContent (jobNames plan) (map (runJob e t) (jobNames plan)))"
    "jobErrors p' =
       (if collectErrors (jobNames plan) (map (runJob e t) (jobNames plan)) = []
        then jobErrors p
        else Some (map_of (collectErrors (jobNames plan) (map (runJob e t) (jobNames plan)))))"
    "transcript p' = Some t" "error p' = error p" "userId p' = userId p"
    unfolding t_def by blast
  have c: "content p' j =
      (if j \<in> set (jobNames plan)
       then (case runJob e t j of Inr v \<Rightarrow> Some v | Inl x \<Rightarrow> content p j)
       else content p j)" for j
    unfolding p'(7) map_add_def map_of_collectContent by (simp split: sum.splits)
  have m: "map_of (collectErrors (jobNames plan) (map (runJob e t) (jobNames plan))) =
     (\<lambda>j. if j \<in> set (jobNames plan)
           then (case runJob e t j of Inl x \<Rightarrow> Some (String_of_reason x) | Inr v \<Rightarrow> None)
           else None)"
    by (rule ext) (simp only: map_of_collectErrors)
  have d: "jobErrors p' =
            (if {j \<in> set (jobNames plan). \<exists>x. runJob e t j = Inl x} = {} then jobErrors p
             else Some (\<lambda>j. if j \<in> set (jobNames plan)
                    then (case runJob e t j of
                            Inl x \<Rightarrow> Some (String_of_reason x) | Inr v \<Rightarrow> None)
                    else None))"
    unfolding p'(8) collectErrors_empty_iff m by (rule refl)
  show "\<exists>p' s. docs w' pid = Some p' \<and>
         status p' = completed \<and> completedAt p' = Some (clock e 8) \<and>
         jobStatus p' = Some s \<and> transcription s = Some phase_completed \<and>
         contentGeneration s = Some phase_completed \<and>
         (\<forall>j. content p' j =
            (if j \<in> set (jobNames plan)
             then (case runJob e t j of Inr v \<Rightarrow> Some v | Inl x \<Rightarrow> content p j)
             else content p j)) \<and>
         jobErrors p' =
            (if {j \<in> set (jobNames plan). \<exists>x. runJob e t j = Inl x} = {} then jobErrors p
             else Some (\<lambda>j. if j \<in> set (jobNames plan)
                    then (case runJob e t j of
                            Inl x \<Rightarrow> Some (String_of_reason x) | Inr v \<Rightarrow> None)
                    else None)) \<and>
         transcript p' = Some t \<and> error p' = error p \<and> userId p' = userId p"
    unfolding w'_def same using p'(1-6) c d p'(9-11) by blast
qed


lemma youtube_not_below_ultra: "plan \<noteq> Ultra \<Longrightarrow> youtubeTimestamps \<notin> set (jobNames plan)"
  by (cases plan) (simp_all add: jobNames_def)

lemma detailsOf_is_string: "\<exists>s. detailsOf x = Some (DetailsString s)"
  by (cases x) simp_all

lemma recordError_of_detailsOf:
  "recordError now pid msg step_name (detailsOf x) w = (Inl ArgumentValidationError, w)"
  using detailsOf_is_string [of x] by (auto simp: recordError_string)

subsection \<open>A run whose YouTube timestamps the store refuses\<close>


lemma run_completes_below_ultra:
  assumes "docs w pid = Some p"
    and "assemblyai e = TranscriptResponse st err txt chs"
    and "st \<noteq> js ''error''"
    and "userPlan \<noteq> Some Ultra"
  shows "\<exists>p'. docs (snd (podcastProcessor e pid userPlan w)) pid = Some p' \<and>
           status p' = completed \<and> completedAt p' = Some (clock e 8)"
proof -
  have "(case userPlan of None \<Rightarrow> Free | Some x \<Rightarrow> x) \<noteq> Ultra"
    using assms(4) by (cases userPlan) simp_all
  then have "youtubeTimestamps \<notin> set (jobNames (case userPlan of None \<Rightarrow> Free | Some x \<Rightarrow> x))"
    by (rule youtube_not_below_ultra)
  then have fits: "youtubeTimestamps \<in> set (jobNames (case userPlan of None \<Rightarrow> Free | Some x \<Rightarrow> x))
      \<Longrightarrow> timestamps_fit e (TranscriptWithExtras (case txt of None \<Rightarrow> [] | Some x \<Rightarrow> x)
             (Some (case chs of None \<Rightarrow> [] | Some c \<Rightarrow> c)))"
    by simp
  from processor_completes(3) [OF assms(1-3) fits] show ?thesis by blast
qed



subsection \<open>Provider failures under the pro plan\<close>

lemma pro_run_degrades:
  assumes "docs w pid = Some p"
    and "assemblyai e = TranscriptResponse st err txt chs"
    and "st \<noteq> js ''error''"
    and "gptSummary e = Rejects x1" and "gptSocialPosts e = Rejects x2"
    and "gptTitles e = Rejects x3" and "gptHashtags e = Rejects x4"
  shows "\<exists>p' s. docs (snd (podcastProcessor e pid (Some Pro) w)) pid = Some p' \<and>
           status p' = completed \<and>
           jobStatus p' = Some s \<and> contentGeneration s = Some phase_completed \<and>
           jobErrors p' = jobErrors p \<and>
           content p' summary = Some (A_summary summary_failed) \<and>
           content p' socialPosts = Some (A_socialPosts socialPosts_failed) \<and>
           content p' titles = Some (A_titles titles_failed) \<and>
           content p' hashtags = Some (A_hashtags hashtags_failed)"
proof -
  define t where "t = TranscriptWithExtras (case txt of None \<Rightarrow> [] | Some x \<Rightarrow> x)
             (Some (case chs of None \<Rightarrow> [] | Some c \<Rightarrow> c))"
  have nofit: "youtubeTimestamps \<in> set (jobNames (case Some Pro of None \<Rightarrow> Free | Some x \<Rightarrow> x))
      \<Longrightarrow> timestamps_fit e (TranscriptWithExtras (case txt of None \<Rightarrow> [] | Some x \<Rightarrow> x)
             (Some (case chs of None \<Rightarrow> [] | Some c \<Rightarrow> c)))"
    by (simp add: jobNames_def)
  from processor_completes(3) [where userPlan = "Some Pro", OF assms(1-3) nofit,
      unfolded option.case]
  obtain p' s where p': "docs (snd (podcastProcessor e pid (Some Pro) w)) pid = Some p'"
    "status p' = completed" "jobStatus p' = Some s"
    "contentGeneration s = Some phase_completed"
    and c: "\<And>j. content p' j =
            (if j \<in> set (jobNames Pro)
             then (case runJob e t j of Inr v \<Rightarrow> Some v | Inl x \<Rightarrow> content p j)
             else content p j)"
    and d: "jobErrors p' =
            (if {j \<in> set (jobNames Pro). \<exists>x. runJob e t j = Inl x} = {} then jobErrors p
             else Some (\<lambda>j. if j \<in> set (jobNames Pro)
                    then (case runJob e t j of
                            Inl x \<Rightarrow> Some (String_of_reason x) | Inr v \<Rightarrow> None)
                    else None))"
    unfolding t_def by blast
  have errs: "jobErrors p' = jobErrors p"
  proof -
    have "{j \<in> set (jobNames Pro). \<exists>x. runJob e t j = Inl x} = {}"
      by (rule no_rejection_below_ultra) simp
    with d show ?thesis by simp
  qed
  have t_chapters: "chapters t \<noteq> None" by (simp add: t_def)
  have c1: "content p' summary = Some (A_summary summary_failed)"
    using t_chapters
    by (simp add: c jobNames_Pro generateSummary_def assms(4) buildSummaryPrompt_throws_def)
  have c2: "content p' socialPosts = Some (A_socialPosts socialPosts_failed)"
    by (simp add: c jobNames_Pro generateSocialPosts_def assms(5))
  have c3: "content p' titles = Some (A_titles titles_failed)"
    using t_chapters
    by (simp add: c jobNames_Pro generateTitles_def assms(6) buildTitlesPrompt_throws_def)
  have c4: "content p' hashtags = Some (A_hashtags hashtags_failed)"
    by (simp add: c jobNames_Pro generateHashtags_def assms(7))
  show ?thesis
    using p' errs c1 c2 c3 c4 by blast
qed

text \<open>
  C1, as the code has it. For a pro-tier project whose transcription succeeds and whose
  four completion calls (summary, social posts, titles, hashtags) all fail at the
  provider, the run ends with status completed and content generation completed; each
  of the four tasks catches the failure and fulfils with its fixed placeholder, so no
  job error is written (\<open>jobErrors\<close> stays as it was) and all four artifacts are
  present on the project, holding the placeholders.
\<close>

theorem pro_provider_failures_degrade:
  assumes "docs w pid = Some p"
    and "assemblyai e = TranscriptResponse st err txt chs"
    and "st \<noteq> js ''error''"
    and "gptSummary e = Rejects x1" and "gptSocialPosts e = Rejects x2"
    and "gptTitles e = Rejects x3" and "gptHashtags e = Rejects x4"
  shows "\<exists>p' s. docs (snd (podcastProcessor e pid (Some Pro) w)) pid = Some p' \<and>
           status p' = completed \<and>
           jobStatus p' = Some s \<and> contentGeneration s = Some phase_completed \<and>
           jobErrors p' = jobErrors p \<and>
           content p' summary = Some (A_summary summary_failed) \<and>
           content p' socialPosts = Some (A_socialPosts socialPosts_failed) \<and>
           content p' titles = Some (A_titles titles_failed) \<and>
           content p' hashtags = Some (A_hashtags hashtags_failed)"
  using assms by (rule pro_run_degrades)

theorem pro_provider_failures_degrade_witness:
  "\<exists>p' s. docs (snd (podcastProcessor env_all_fail 7 (Some Pro) world0)) 7 = Some p' \<and>
     status p' = completed \<and>
     jobStatus p' = Some s \<and> contentGeneration s = Some phase_completed \<and>
     jobErrors p' = None \<and>
     content p' summary = Some (A_summary summary_failed) \<and>
     content p' socialPosts = Some (A_socialPosts socialPosts_failed) \<and>
     content p' titles = Some (A_titles titles_failed) \<and>
     content p' hashtags = Some (A_hashtags hashtags_failed)"
proof -
  have 1: "docs world0 7 = Some project0" by (simp add: world0_def)
  have 2: "assemblyai env_all_fail =
      TranscriptResponse (js ''completed'') None (Some (js ''hello world'')) (Some [chapter0])"
    by (simp add: env_all_fail_def)
  have 3: "js ''completed'' \<noteq> js ''error''" by (simp add: js_eq_iff)
  have 4: "gptSummary env_all_fail = Rejects rate_limited"
    "gptSocialPosts env_all_fail = Rejects rate_limited"
    "gptTitles env_all_fail = Rejects rate_limited"
    "gptHashtags env_all_fail = Rejects rate_limited"
    by (simp_all add: env_all_fail_def)
  show ?thesis
    using pro_provider_failures_degrade [OF 1 2 3 4]
    by (simp add: project0_def)
qed

text \<open>
  The claim as stated fails on that run: no name is a key of \<open>jobErrors\<close> (the field
  is never written), and the four artifacts are present.
\<close>

theorem pro_provider_failures_counterexample:
  "(case docs (snd (podcastProcessor env_all_fail 7 (Some Pro) world0)) 7 of
      None \<Rightarrow> False
    | Some p' \<Rightarrow>
        status p' = completed \<and> jobErrors p' = None \<and>
        content p' summary \<noteq> None \<and> content p' socialPosts \<noteq> None \<and>
        content p' titles \<noteq> None \<and> content p' hashtags \<noteq> None)"
proof -
  have 1: "docs world0 7 = Some project0" by (simp add: world0_def)
  have 2: "assemblyai env_all_fail =
      TranscriptResponse (js ''completed'') None (Some (js ''hello world'')) (Some [chapter0])"
    by (simp add: env_all_fail_def)
  have 3: "js ''completed'' \<noteq> js ''error''" by (simp add: js_eq_iff)
  have 4: "gptSummary env_all_fail = Rejects rate_limited"
    "gptSocialPosts env_all_fail = Rejects rate_limited"
    "gptTitles env_all_fail = Rejects rate_limited"
    "gptHashtags env_all_fail = Rejects rate_limited"
    by (simp_all add: env_all_fail_def)
  from pro_run_degrades [OF 1 2 3 4]
  obtain p' where "docs (snd (podcastProcessor env_all_fail 7 (Some Pro) world0)) 7 = Some p'"
    "status p' = completed" "jobErrors p' = jobErrors project0"
    "content p' summary \<noteq> None" "content p' socialPosts \<noteq> None"
    "content p' titles \<noteq> None" "content p' hashtags \<noteq> None"
    by auto
  then show ?thesis by (simp add: project0_def)
qed

subsection \<open>A run whose transcription fails\<close>

lemma transcribe_fails:
  assumes present: "docs w pid = Some p"
    and failure: "reply = TranscribeThrows x \<or>
      (\<exists>err txt chs. reply = TranscriptResponse (js ''error'') err txt chs \<and>
         x = new_Error (case err of
                None \<Rightarrow> js ''AssemblyAI transcription failed''
              | Some m \<Rightarrow> if m = [] then js ''AssemblyAI transcription failed'' else m))"
  shows "transcribeWithAssemblyAI now reply pid w =
     (Inl x, w\<lparr>docs := (docs w)(pid \<mapsto>
        p\<lparr>status := failed,
          error := Some (ErrorInfo (messageOr (js ''Transcription failed'') x)
                    (js ''transcription'') now None),
          updatedAt := now\<rparr>)\<rparr>)"
proof -
  from failure consider
    (throws) "reply = TranscribeThrows x"
    | (reported) err tx chs where "reply = TranscriptResponse (js ''error'') err tx chs"
        "x = new_Error (case err of
                None \<Rightarrow> js ''AssemblyAI transcription failed''
              | Some m \<Rightarrow> if m = [] then js ''AssemblyAI transcription failed'' else m)"
    by blast
  then show ?thesis
  proof cases
    case throws
    then show ?thesis
      using present
      by (simp add: transcribeWithAssemblyAI_def tryCatch_def andThen_def throw_def
          recordError_present)
  next
    case reported
    then show ?thesis
      using present
      by (simp add: transcribeWithAssemblyAI_def tryCatch_def andThen_def throw_def
          recordError_present)
  qed
qed

lemma processor_transcription_fails:
  fixes userPlan :: "PlanName option"
  assumes present: "docs w pid = Some p"
    and failure: "assemblyai e = TranscribeThrows x \<or>
      (\<exists>err txt chs. assemblyai e = TranscriptResponse (js ''error'') err txt chs \<and>
         x = new_Error (case err of
                None \<Rightarrow> js ''AssemblyAI transcription failed''
              | Some m \<Rightarrow> if m = [] then js ''AssemblyAI transcription failed'' else m))"
  defines "w' \<equiv> snd (podcastProcessor e pid userPlan w)"
  shows "fst (podcastProcessor e pid userPlan w) = Inl x"
    and "launched w' = launched w"
    and "\<exists>p' i. docs w' pid = Some p' \<and> status p' = failed \<and> error p' = Some i \<and>
           err_step i = js ''transcription'' \<and>
           err_message i = messageOr (js ''Transcription failed'') x \<and>
           content p' = content p \<and> jobErrors p' = jobErrors p \<and> completedAt p' = completedAt p"
proof -
  note steps = andThen_def succeed_def throw_def tryCatch_def Let_def
      updateProjectStatus_present updateJobStatus_present
      transcribe_fails [OF _ failure] recordError_of_detailsOf
  show "fst (podcastProcessor e pid userPlan w) = Inl x"
    unfolding podcastProcessor_def workflow_def using present by (simp add: steps)
  show "launched w' = launched w"
    unfolding w'_def podcastProcessor_def workflow_def using present by (simp add: steps)
  show "\<exists>p' i. docs w' pid = Some p' \<and> status p' = failed \<and> error p' = Some i \<and>
           err_step i = js ''transcription'' \<and>
           err_message i = messageOr (js ''Transcription failed'') x \<and>
           content p' = content p \<and> jobErrors p' = jobErrors p \<and> completedAt p' = completedAt p"
    unfolding w'_def podcastProcessor_def workflow_def using present by (simp add: steps)
qed

text \<open>
  C4. When the transcription stage fails on an existing project (the provider call
  throws \<open>x\<close>, or the provider reports status error and the stage throws a new Error
  \<open>x\<close>), the run rejects with \<open>x\<close>, no generation task is invoked, and the project is
  left with status failed and a recorded error whose step is "transcription"; its
  artifacts and task errors are as they were.
\<close>

theorem transcription_failure_is_terminal:
  assumes "docs w pid = Some p"
    and "assemblyai e = TranscribeThrows x \<or>
      (\<exists>err txt chs. assemblyai e = TranscriptResponse (js ''error'') err txt chs \<and>
         x = new_Error (case err of
                None \<Rightarrow> js ''AssemblyAI transcription failed''
              | Some m \<Rightarrow> if m = [] then js ''AssemblyAI transcription failed'' else m))"
  shows "fst (podcastProcessor e pid userPlan w) = Inl x \<and>
         launched (snd (podcastProcessor e pid userPlan w)) = launched w \<and>
         (\<exists>p' i. docs (snd (podcastProcessor e pid userPlan w)) pid = Some p' \<and>
            status p' = failed \<and> error p' = Some i \<and>
            err_step i = js ''transcription'' \<and>
            content p' = content p \<and> jobErrors p' = jobErrors p)"
proof -
  from processor_transcription_fails(3) [OF assms, of userPlan]
  obtain p' i where "docs (snd (podcastProcessor e pid userPlan w)) pid = Some p'"
    "status p' = failed" "error p' = Some i"
    "err_step i = js ''transcription''"
    "content p' = content p" "jobErrors p' = jobErrors p"
    by blast
  then show ?thesis
    using processor_transcription_fails(1,2) [OF assms, of userPlan]
    by blast
qed

theorem transcription_failure_is_terminal_witness:
  "fst (podcastProcessor env_provider_error 7 (Some Ultra) world0) =
     Inl (new_Error (js ''Audio file could not be decoded'')) \<and>
   launched (snd (podcastProcessor env_provider_error 7 (Some Ultra) world0)) = [] \<and>
   (\<exists>p' i. docs (snd (podcastProcessor env_provider_error 7 (Some Ultra) world0)) 7 = Some p' \<and>
      status p' = failed \<and> error p' = Some i \<and> err_step i = js ''transcription'' \<and>
      content p' = Map.empty \<and> jobErrors p' = None)"
proof -
  have 1: "docs world0 7 = Some project0" by (simp add: world0_def)
  have 2: "assemblyai env_provider_error = TranscribeThrows
             (new_Error (js ''Audio file could not be decoded'')) \<or>
      (\<exists>err txt chs. assemblyai env_provider_error = TranscriptResponse (js ''error'') err txt chs \<and>
         new_Error (js ''Audio file could not be decoded'') = new_Error (case err of
                None \<Rightarrow> js ''AssemblyAI transcription failed''
              | Some m \<Rightarrow> if m = [] then js ''AssemblyAI transcription failed'' else m))"
    by (simp add: env_provider_error_def js_def)
  show ?thesis
    using transcription_failure_is_terminal [OF 1 2, of "Some Ultra"]
    by (simp add: world0_def project0_def new_Error_def)
qed
subsection \<open>The Twitter limit of the social posts\<close>

lemma schema_bounds_twitter: "socialPostsSchema v = Some p \<Longrightarrow> length (twitter p) \<le> 280"
  by (auto simp: socialPostsSchema_def z_string_max_def split: if_splits option.splits)

lemma truncation_never_runs_on_parsed_posts:
  "socialPostsSchema v = Some p \<Longrightarrow> enforceTwitterLimit p = p"
  using schema_bounds_twitter [of v p] by (simp add: enforceTwitterLimit_def)

lemma over_limit_twitter_is_refused:
  "property v (js ''twitter'') = Some (JString s) \<Longrightarrow> 280 < length s \<Longrightarrow>
   generateSocialPosts (Parsed v) t = socialPosts_failed"
  by (simp add: generateSocialPosts_def socialPostsSchema_def z_string_max_def)

lemma enforceTwitterLimit_length:
  "280 < length (twitter p) \<Longrightarrow>
   twitter (enforceTwitterLimit p) = take 277 (twitter p) @ js ''...'' \<and>
   length (twitter (enforceTwitterLimit p)) = 280"
  by (simp add: enforceTwitterLimit_def js_def)

text \<open>
  C5, on the code. A Twitter post of 310 characters from the provider is not truncated:
  \<open>socialPostsSchema.parse\<close> (twitter at most 280) throws on it before the safety
  check is reached, the task's catch returns the placeholder posts, and the Twitter
  field of the artifact is the placeholder text of 60 code units, not the first 277
  characters and an ellipsis; a pro run that receives this reply persists the
  placeholder posts.
\<close>

theorem twitter_310_yields_placeholder:
  "length twitter310 = 310 \<and>
   generateSocialPosts reply_twitter_310 transcript0 = socialPosts_failed \<and>
   twitter (generateSocialPosts reply_twitter_310 transcript0) =
     [8218, 246, 8224, 212, 8719, 232]
       @ js '' Error generating social post. Check logs for details.'' \<and>
   length (twitter (generateSocialPosts reply_twitter_310 transcript0)) = 60 \<and>
   twitter (generateSocialPosts reply_twitter_310 transcript0) \<noteq>
     take 277 twitter310 @ js ''...'' \<and>
   length (twitter (generateSocialPosts reply_twitter_310 transcript0)) \<noteq> 280 \<and>
   (case docs (snd (podcastProcessor env_twitter_310 7 (Some Pro) world0)) 7 of
      None \<Rightarrow> False
    | Some p' \<Rightarrow> content p' socialPosts = Some (A_socialPosts socialPosts_failed))"
proof -
  have len: "length twitter310 = 310" by (simp add: twitter310_def)
  have tw_prop: "property (JObject
       [(js ''twitter'', JString twitter310), (js ''linkedin'', JString (js ''A new episode''))
       , (js ''instagram'', JString (js ''A new episode''))
       , (js ''tiktok'', JString (js ''A new episode''))
       , (js ''youtube'', JString (js ''A new episode''))
       , (js ''facebook'', JString (js ''A new episode''))]) (js ''twitter'') =
     Some (JString twitter310)"
    by simp
  have res: "generateSocialPosts reply_twitter_310 transcript0 = socialPosts_failed"
    unfolding reply_twitter_310_def
    by (rule over_limit_twitter_is_refused [OF tw_prop]) (simp add: len)
  have tw: "twitter socialPosts_failed =
      [8218, 246, 8224, 212, 8719, 232]
        @ js '' Error generating social post. Check logs for details.''"
    by (simp add: socialPosts_failed_def Let_def)
  have l: "length (twitter socialPosts_failed) = 60"
    by (simp add: tw js_def)
  have "length (take 277 twitter310 @ js ''...'') = 280"
    by (simp add: len js_def)
  then have ne: "twitter socialPosts_failed \<noteq> take 277 twitter310 @ js ''...''"
    using l by auto
  have 1: "docs world0 7 = Some project0" by (simp add: world0_def)
  have 2: "assemblyai env_twitter_310 =
      TranscriptResponse (js ''completed'') None (Some (js ''hello world'')) (Some [chapter0])"
    by (simp add: env_twitter_310_def env_all_fail_def)
  have 3: "js ''completed'' \<noteq> js ''error''" by (simp add: js_eq_iff)
  have nofit: "youtubeTimestamps \<in> set (jobNames (case Some Pro of None \<Rightarrow> Free | Some x \<Rightarrow> x))
      \<Longrightarrow> timestamps_fit env_twitter_310
            (TranscriptWithExtras (case Some (js ''hello world'') of None \<Rightarrow> [] | Some x \<Rightarrow> x)
               (Some (case Some [chapter0] of None \<Rightarrow> [] | Some c \<Rightarrow> c)))"
    by (simp add: jobNames_def)
  from processor_completes(3) [where userPlan = "Some Pro", OF 1 2 3 nofit, unfolded option.case]
  obtain p' where p': "docs (snd (podcastProcessor env_twitter_310 7 (Some Pro) world0)) 7 = Some p'"
    and c: "\<And>j. content p' j =
            (if j \<in> set (jobNames Pro)
             then (case runJob env_twitter_310
                          (TranscriptWithExtras (js ''hello world'') (Some [chapter0])) j of
                     Inr v \<Rightarrow> Some v | Inl x \<Rightarrow> content project0 j)
             else content project0 j)"
    by auto
  have "content p' socialPosts = Some (A_socialPosts socialPosts_failed)"
    using res by (simp add: c jobNames_Pro env_twitter_310_def transcript0_def)
  with p' have stored:
    "case docs (snd (podcastProcessor env_twitter_310 7 (Some Pro) world0)) 7 of
       None \<Rightarrow> False
     | Some p' \<Rightarrow> content p' socialPosts = Some (A_socialPosts socialPosts_failed)"
    by simp
  show ?thesis
    using len res tw l ne stored by simp
qed

subsection \<open>YouTube timestamps\<close>

lemma chapterDataOf_length: "length (chapterDataOf cs) = length cs"
  by (simp add: chapterDataOf_def)

lemma chapterDataOf_nth:
  "i < length cs \<Longrightarrow>
   chapterDataOf cs ! i =
     ChapterData i (chapter_start (cs ! i) div 1000) (headline (cs ! i))
       (chapter_summary (cs ! i)) (gist (cs ! i))"
  by (simp add: chapterDataOf_def nth_enumerate_eq)

lemma findTitle_no_titles: "findTitle idx [] = Inr None"
  by simp

lemma combineTitles_no_titles:
  "combineTitles [] cd =
     Inr (map (\<lambda>chapter. (data_timestamp chapter, JString (data_headline chapter))) cd)"
  by (induction cd) (simp_all add: describe_def)

lemma headlines_stringify:
  "stringifies_all (map snd (take n
     (map (\<lambda>chapter. (data_timestamp chapter, JString (data_headline chapter))) cd)))"
proof (induction cd arbitrary: n)
  case Nil
  then show ?case by simp
next
  case (Cons c cd)
  then show ?case by (cases n) simp_all
qed

text \<open>
  Where the completion call returns and its content holds no titles (no content,
  content that is not JSON, or JSON without a truthy \<open>titles\<close>), the task returns one
  entry per chapter among the first 100, in order, described by the chapter's headline.
\<close>

lemma youtube_timestamps_fall_back_without_titles:
  assumes "chapters t = Some cs" and "cs \<noteq> []"
    and "\<And>x. reply \<noteq> Rejects x" and "aiTitlesOf reply = JArray []"
  shows "generateYouTubeTimestamps reply t =
     Inr (map (\<lambda>chapter.
                YouTubeTimestamp (formatTimestamp (data_timestamp chapter) False False)
                  (JString (data_headline chapter)))
            (chapterDataOf (take 100 cs)))"
    and "\<exists>ys. generateYouTubeTimestamps reply t = Inr ys \<and> length ys = min (length cs) 100"
proof -
  show ret: "generateYouTubeTimestamps reply t =
     Inr (map (\<lambda>chapter.
                YouTubeTimestamp (formatTimestamp (data_timestamp chapter) False False)
                  (JString (data_headline chapter)))
            (chapterDataOf (take 100 cs)))"
    using assms
    by (cases reply)
       (auto simp: generateYouTubeTimestamps_def Let_def combineTitles_no_titles
          headlines_stringify comp_def case_prod_beta)
  show "\<exists>ys. generateYouTubeTimestamps reply t = Inr ys \<and> length ys = min (length cs) 100"
    unfolding ret by (simp add: chapterDataOf_length)
qed

text \<open>
  C10, on the code. With one chapter in the transcript, the task returns no entry when
  the chapter-title completion call throws: the call stands outside any \<open>try\<close>, so the
  task rejects with the provider's error instead of falling back to the chapter's
  headline. It rejects as well, with a TypeError raised after the \<open>try\<close>, when the
  parsed \<open>titles\<close> hold a null or are a string. The fallback entry is what a reply
  without content gives.
\<close>

theorem youtube_timestamps_reject_without_fallback:
  "chapters transcript0 = Some [chapter0] \<and>
   generateYouTubeTimestamps (Rejects rate_limited) transcript0 = Inl rate_limited \<and>
   generateYouTubeTimestamps reply_null_title transcript0 =
     Inl (TypeError (js ''Cannot read properties of null (reading '' @ [39] @ js ''index''
            @ [39] @ js '')'')) \<and>
   generateYouTubeTimestamps (Parsed (JObject [(js ''titles'', JString (js ''abc''))])) transcript0 =
     Inl (TypeError (js ''aiTitles.find is not a function'')) \<and>
   generateYouTubeTimestamps NoContent transcript0 =
     Inr [YouTubeTimestamp (js ''00:00'') (JString (js ''Welcome to the show''))]"
proof -
  have 1: "chapters transcript0 = Some [chapter0]" by (simp add: transcript0_def)
  have 2: "generateYouTubeTimestamps (Rejects rate_limited) transcript0 = Inl rate_limited"
    by (simp add: transcript0_def generateYouTubeTimestamps_def Let_def)
  have 3: "generateYouTubeTimestamps reply_null_title transcript0 =
     Inl (TypeError (js ''Cannot read properties of null (reading '' @ [39] @ js ''index''
            @ [39] @ js '')''))"
    by (simp add: transcript0_def reply_null_title_def generateYouTubeTimestamps_def Let_def
        chapterDataOf_def)
  have "js ''abc'' \<noteq> []" by (simp add: js_def)
  then have 4: "generateYouTubeTimestamps (Parsed (JObject [(js ''titles'', JString (js ''abc''))]))
       transcript0 = Inl (TypeError (js ''aiTitles.find is not a function''))"
    by (simp add: transcript0_def generateYouTubeTimestamps_def Let_def chapterDataOf_def)
  have f: "formatTimestamp 0 False False = js ''00:00''"
    by (simp add: formatTimestamp_def padStart2_def js_def)
  have 5: "generateYouTubeTimestamps NoContent transcript0 =
     Inr [YouTubeTimestamp (js ''00:00'') (JString (js ''Welcome to the show''))]"
    by (simp add: transcript0_def generateYouTubeTimestamps_def Let_def chapterDataOf_def
        describe_def chapter0_def f)
  from 1 2 3 4 5 show ?thesis by blast
qed
subsection \<open>Entitlement is monotone in the plan\<close>

lemma entitledTasks_Free: "entitledTasks Free = [summary]"
  by (simp add: entitledTasks_def FEATURE_TO_JOB_MAP_def FEATURE_TO_JOB_entries_def)

lemma entitledTasks_Pro: "entitledTasks Pro = [summary, socialPosts, titles, hashtags]"
  by (simp add: entitledTasks_def FEATURE_TO_JOB_MAP_def FEATURE_TO_JOB_entries_def)

lemma entitledTasks_Ultra:
  "entitledTasks Ultra =
     [summary, socialPosts, titles, hashtags, youtubeTimestamps, keyMoments]"
  by (simp add: entitledTasks_def FEATURE_TO_JOB_MAP_def FEATURE_TO_JOB_entries_def)

text \<open>
  C9. The plan-to-entitlement mapping is monotone for free < pro < ultra: the features
  (and so the generation tasks) of free are among those of pro, and those of pro among
  those of ultra.
\<close>

theorem entitlement_monotone:
  "set (PLAN_FEATURES Free) \<subseteq> set (PLAN_FEATURES Pro) \<and>
   set (PLAN_FEATURES Pro) \<subseteq> set (PLAN_FEATURES Ultra) \<and>
   set (entitledTasks Free) \<subseteq> set (entitledTasks Pro) \<and>
   set (entitledTasks Pro) \<subseteq> set (entitledTasks Ultra)"
  by (simp add: entitledTasks_Free entitledTasks_Pro entitledTasks_Ultra)

subsection \<open>Generating the missing features\<close>

lemma missingJobsOf_filter:
  "missingJobsOf plan p = filter (\<lambda>j. content p j = None) (entitledTasks plan)"
  by (cases plan)
     (simp_all add: missingJobsOf_def entitledTasks_def FEATURE_TO_JOB_MAP_def
        FEATURE_TO_JOB_entries_def)

lemma distinct_entitledTasks: "distinct (entitledTasks plan)"
  by (cases plan)
     (simp_all add: entitledTasks_def FEATURE_TO_JOB_MAP_def FEATURE_TO_JOB_entries_def)

lemma generateMissingFeatures_sends:
  assumes "auth_userId authObj = Some uid" and "uid \<noteq> []"
    and "docs w pid = Some p" and "userId p = uid"
  shows "snd (generateMissingFeatures authObj pid w) =
     map (\<lambda>job. RetryJobEvent pid job uid (Some (inferOriginalPlan p))
                  (Some (planOfAuth authObj)))
       (missingJobsOf (planOfAuth authObj) p)"
  using assms by (simp add: generateMissingFeatures_def Let_def)

text \<open>
  C8. For a signed-in user on their own project, \<open>generateMissingFeatures\<close> sends one
  retry event per task that the current plan is entitled to and whose artifact the
  project does not hold yet: the jobs of the events sent are, without repetition, the
  entitled tasks minus the present ones, each event carrying the project and the
  current plan. (When nothing is missing the action throws and sends nothing.)
\<close>

theorem generate_missing_sends_the_difference:
  assumes "auth_userId authObj = Some uid" and "uid \<noteq> []"
    and "docs w pid = Some p" and "userId p = uid"
  shows "map event_job (snd (generateMissingFeatures authObj pid w)) =
           filter (\<lambda>j. content p j = None) (entitledTasks (planOfAuth authObj)) \<and>
         distinct (map event_job (snd (generateMissingFeatures authObj pid w))) \<and>
         set (map event_job (snd (generateMissingFeatures authObj pid w))) =
           set (entitledTasks (planOfAuth authObj)) - {j. content p j \<noteq> None} \<and>
         length (snd (generateMissingFeatures authObj pid w)) =
           card (set (entitledTasks (planOfAuth authObj)) - {j. content p j \<noteq> None}) \<and>
         list_all (\<lambda>ev. event_projectId ev = pid \<and> currentPlan ev = Some (planOfAuth authObj))
           (snd (generateMissingFeatures authObj pid w))"
proof -
  let ?sent = "snd (generateMissingFeatures authObj pid w)"
  let ?missing = "filter (\<lambda>j. content p j = None) (entitledTasks (planOfAuth authObj))"
  have sent: "?sent =
     map (\<lambda>job. RetryJobEvent pid job uid (Some (inferOriginalPlan p))
                  (Some (planOfAuth authObj))) ?missing"
    using generateMissingFeatures_sends [OF assms] by (simp add: missingJobsOf_filter)
  have jobs: "map event_job ?sent = ?missing"
    by (simp add: sent comp_def)
  have d: "distinct ?missing"
    by (simp add: distinct_entitledTasks)
  have s: "set ?missing = set (entitledTasks (planOfAuth authObj)) - {j. content p j \<noteq> None}"
    by auto
  have "card (set ?missing) = length ?missing"
    using d by (rule distinct_card)
  moreover have "length ?sent = length ?missing"
    by (simp only: sent length_map)
  ultimately have l: "length ?sent = card (set ?missing)"
    by (simp only:)
  have a: "list_all (\<lambda>ev. event_projectId ev = pid \<and> currentPlan ev = Some (planOfAuth authObj))
      ?sent"
    by (simp add: sent list_all_iff)
  show ?thesis
    using jobs d s l a by (simp only: simp_thms)
qed

theorem generate_missing_sends_the_difference_witness:
  "map event_job (snd (generateMissingFeatures auth_pro 7 world_with_summary)) =
     [socialPosts, titles, hashtags] \<and>
   length (snd (generateMissingFeatures auth_pro 7 world_with_summary)) = 3 \<and>
   fst (generateMissingFeatures auth_pro 7 world_with_summary) =
     Inr [socialPosts, titles, hashtags]"
proof -
  have 1: "auth_userId auth_pro = Some (js ''user_1'')" by (simp add: auth_pro_def)
  have 2: "js ''user_1'' \<noteq> []" by (simp add: js_def)
  have 3: "docs world_with_summary 7 = Some project_with_summary"
    by (simp add: world_with_summary_def)
  have 4: "userId project_with_summary = js ''user_1''"
    by (simp add: project_with_summary_def project0_def)
  have plan: "planOfAuth auth_pro = Pro" by (simp add: planOfAuth_def auth_pro_def)
  have present: "content project_with_summary j = None \<longleftrightarrow> j \<noteq> summary" for j
    by (simp add: project_with_summary_def)
  have jobs: "map event_job (snd (generateMissingFeatures auth_pro 7 world_with_summary)) =
     [socialPosts, titles, hashtags]"
    using generate_missing_sends_the_difference [OF 1 2 3 4]
    by (simp add: plan entitledTasks_Pro present)
  then have "length (map event_job (snd (generateMissingFeatures auth_pro 7 world_with_summary))) = 3"
    by simp
  then have len: "length (snd (generateMissingFeatures auth_pro 7 world_with_summary)) = 3"
    by simp
  have ret: "fst (generateMissingFeatures auth_pro 7 world_with_summary) =
     Inr [socialPosts, titles, hashtags]"
    using 1 2 3 4
    by (simp add: generateMissingFeatures_def Let_def plan missingJobsOf_filter
        entitledTasks_Pro present)
  show ?thesis using jobs len ret by simp
qed

subsection \<open>Retrying one job\<close>

lemma not_entitled_iff:
  "(case jobToFeature job of
      None \<Rightarrow> False
    | Some featureKey \<Rightarrow> \<not> planHasFeature plan featureKey) \<longleftrightarrow>
   job \<notin> set (entitledTasks plan)"
  by (cases job; cases plan)
     (simp_all add: jobToFeature_def FEATURE_TO_JOB_entries_def planHasFeature_def
        entitledTasks_Free entitledTasks_Pro entitledTasks_Ultra)

lemma single_fits:
  "artifact_fits job (Some a) \<Longrightarrow> artifact_fits j ((Map.empty(job \<mapsto> a)) j)"
  by (cases "j = job") simp_all

lemma saveGeneratedContent_single:
  assumes "docs w pid = Some p" and "artifact_fits job (Some a)"
  shows "saveGeneratedContent now pid (Map.empty(job \<mapsto> a)) w =
     (Inr (), w\<lparr>docs := (docs w)(pid \<mapsto>
        p\<lparr>content := (content p)(job \<mapsto> a), updatedAt := now\<rparr>)\<rparr>)"
proof -
  have "saveGeneratedContent now pid (Map.empty(job \<mapsto> a)) w =
     (Inr (), w\<lparr>docs := (docs w)(pid \<mapsto>
        p\<lparr>content := content p ++ Map.empty(job \<mapsto> a), updatedAt := now\<rparr>)\<rparr>)"
    using assms(1) by (rule saveGeneratedContent_present) (rule single_fits [OF assms(2)])
  then show ?thesis by simp
qed

lemma retry_regeneration_fails:
  fixes uid :: jsstring and orig :: "PlanName option"
  assumes entitled: "job \<in> set (entitledTasks (case cur of None \<Rightarrow> Free | Some x \<Rightarrow> x))"
    and present: "docs w pid = Some p" and transcribed: "transcript p = Some t"
    and nonempty: "transcript_text t \<noteq> []"
    and chaptered: "\<not> (List.member jobsRequiringChapters job \<and>
                       (chapters t = None \<or> chapters t = Some []))"
    and rejected: "runJob e t job = Inl x"
  defines "r \<equiv> retryJobFunction e (RetryJobEvent pid job uid orig cur) w"
  shows "fst r = Inl x"
    and "launched (snd r) = launched w @ [job]"
    and "\<exists>p'. docs (snd r) pid = Some p' \<and>
           jobErrors p' = Some (Map.empty(job \<mapsto> messageOr (js ''Unknown error'') x)) \<and>
           status p' = status p \<and> content p' = content p \<and> error p' = error p"
proof -
  note steps = not_entitled_iff getProject_def andThen_def tryCatch_def throw_def succeed_def
    Let_def regenerate_def launch_def saveJobErrors_present
  show "fst r = Inl x"
    unfolding r_def retryJobFunction_def
    using entitled present transcribed nonempty chaptered rejected by (auto simp: steps)
  show "launched (snd r) = launched w @ [job]"
    unfolding r_def retryJobFunction_def
    using entitled present transcribed nonempty chaptered rejected by (auto simp: steps)
  show "\<exists>p'. docs (snd r) pid = Some p' \<and>
           jobErrors p' = Some (Map.empty(job \<mapsto> messageOr (js ''Unknown error'') x)) \<and>
           status p' = status p \<and> content p' = content p \<and> error p' = error p"
    unfolding r_def retryJobFunction_def
    using entitled present transcribed nonempty chaptered rejected by (auto simp: steps)
qed

lemma retry_regeneration_succeeds:
  fixes uid :: jsstring and orig :: "PlanName option"
  assumes entitled: "job \<in> set (entitledTasks (case cur of None \<Rightarrow> Free | Some x \<Rightarrow> x))"
    and present: "docs w pid = Some p" and transcribed: "transcript p = Some t"
    and nonempty: "transcript_text t \<noteq> []"
    and chaptered: "\<not> (List.member jobsRequiringChapters job \<and>
                       (chapters t = None \<or> chapters t = Some []))"
    and fulfilled: "runJob e t job = Inr a"
    and fits: "artifact_fits job (Some a)"
  defines "r \<equiv> retryJobFunction e (RetryJobEvent pid job uid orig cur) w"
  shows "fst r = Inr job"
    and "launched (snd r) = launched w @ [job]"
    and "\<exists>p'. docs (snd r) pid = Some p' \<and>
           jobErrors p' =
             Some ((case jobErrors p of None \<Rightarrow> Map.empty | Some m \<Rightarrow> m)(job := None)) \<and>
           status p' = status p \<and> content p' = (content p)(job \<mapsto> a) \<and>
           error p' = error p"
proof -
  note steps = not_entitled_iff getProject_def andThen_def tryCatch_def throw_def succeed_def
    Let_def regenerate_def launch_def clearJobError_def saveJobErrors_present
    saveGeneratedContent_single [OF _ fits]
  show "fst r = Inr job"
    unfolding r_def retryJobFunction_def
    using entitled present transcribed nonempty chaptered fulfilled by (auto simp: steps)
  show "launched (snd r) = launched w @ [job]"
    unfolding r_def retryJobFunction_def
    using entitled present transcribed nonempty chaptered fulfilled by (auto simp: steps)
  show "\<exists>p'. docs (snd r) pid = Some p' \<and>
           jobErrors p' =
             Some ((case jobErrors p of None \<Rightarrow> Map.empty | Some m \<Rightarrow> m)(job := None)) \<and>
           status p' = status p \<and> content p' = (content p)(job \<mapsto> a) \<and>
           error p' = error p"
    unfolding r_def retryJobFunction_def
    using entitled present transcribed nonempty chaptered fulfilled by (auto simp: steps)
qed

lemma failed_retry_keeps_no_other_entry:
  fixes uid :: jsstring and orig :: "PlanName option"
  assumes "job \<in> set (entitledTasks (case cur of None \<Rightarrow> Free | Some x \<Rightarrow> x))"
    and "docs w pid = Some p" and "transcript p = Some t"
    and "transcript_text t \<noteq> []"
    and "\<not> (List.member jobsRequiringChapters job \<and>
            (chapters t = None \<or> chapters t = Some []))"
    and "runJob e t job = Inl x"
    and "other \<noteq> job"
  shows "\<exists>p' errs.
           docs (snd (retryJobFunction e (RetryJobEvent pid job uid orig cur) w)) pid = Some p' \<and>
           jobErrors p' = Some errs \<and> errs other = None \<and>
           errs job = Some (messageOr (js ''Unknown error'') x)"
  using retry_regeneration_fails(3) [OF assms(1-6), of uid orig] assms(7) by auto

lemma successful_retry_keeps_other_entries:
  fixes uid :: jsstring and orig :: "PlanName option"
  assumes "job \<in> set (entitledTasks (case cur of None \<Rightarrow> Free | Some x \<Rightarrow> x))"
    and "docs w pid = Some p" and "transcript p = Some t"
    and "transcript_text t \<noteq> []"
    and "\<not> (List.member jobsRequiringChapters job \<and>
            (chapters t = None \<or> chapters t = Some []))"
    and "runJob e t job = Inr a"
    and "artifact_fits job (Some a)"
    and "other \<noteq> job"
  shows "\<exists>p' errs.
           docs (snd (retryJobFunction e (RetryJobEvent pid job uid orig cur) w)) pid = Some p' \<and>
           jobErrors p' = Some errs \<and> errs job = None \<and>
           errs other = (case jobErrors p of None \<Rightarrow> None | Some m \<Rightarrow> m other) \<and>
           status p' = status p"
  using retry_regeneration_succeeds(3) [OF assms(1-7), of uid orig] assms(8)
  by (auto split: option.splits)

text \<open>
  C6, on the code. A retry whose regeneration fails does not keep the other jobs'
  entries: the catch hands \<open>saveJobErrors\<close> an object with the retried job alone, and
  that mutation replaces the whole \<open>jobErrors\<close> field. Here the project holds errors
  for titles and YouTube timestamps; the retry of the YouTube timestamps is rejected by
  the provider; afterwards the entry for YouTube timestamps is the new message, the
  entry for titles is gone, and the status is still completed.
\<close>

theorem failed_retry_drops_other_job_errors:
  "map_option (\<lambda>errs. errs titles) (jobErrors project_two_errors) =
     Some (Some (js ''Request timed out'')) \<and>
   fst (retryJobFunction env_all_fail retry_youtube world_two_errors) = Inl rate_limited \<and>
   (case docs (snd (retryJobFunction env_all_fail retry_youtube world_two_errors)) 7 of
      None \<Rightarrow> False
    | Some p' \<Rightarrow>
        map_option (\<lambda>errs. errs titles) (jobErrors p') = Some None \<and>
        map_option (\<lambda>errs. errs youtubeTimestamps) (jobErrors p') =
          Some (Some (js ''429 rate limit'')) \<and>
        status p' = completed)"
proof -
  have before: "map_option (\<lambda>errs. errs titles) (jobErrors project_two_errors) =
     Some (Some (js ''Request timed out''))"
    by (simp add: project_two_errors_def)
  have 1: "youtubeTimestamps \<in> set (entitledTasks (case Some Ultra of None \<Rightarrow> Free | Some x \<Rightarrow> x))"
    by (simp add: entitledTasks_Ultra)
  have 2: "docs world_two_errors 7 = Some project_two_errors"
    by (simp add: world_two_errors_def)
  have 3: "transcript project_two_errors = Some transcript0"
    by (simp add: project_two_errors_def)
  have 4: "transcript_text transcript0 \<noteq> []"
    by (simp add: transcript0_def js_def)
  have 5: "\<not> (List.member jobsRequiringChapters youtubeTimestamps \<and>
            (chapters transcript0 = None \<or> chapters transcript0 = Some []))"
    by (simp add: transcript0_def)
  have 6: "runJob env_all_fail transcript0 youtubeTimestamps = Inl rate_limited"
    by (simp add: env_all_fail_def transcript0_def generateYouTubeTimestamps_def Let_def)
  have out: "fst (retryJobFunction env_all_fail retry_youtube world_two_errors) = Inl rate_limited"
    unfolding retry_youtube_def by (rule retry_regeneration_fails(1) [OF 1 2 3 4 5 6])
  from retry_regeneration_fails(3) [OF 1 2 3 4 5 6, of "js ''user_1''" "Some Ultra"]
  obtain p' where
    "docs (snd (retryJobFunction env_all_fail retry_youtube world_two_errors)) 7 = Some p'"
    "jobErrors p' =
       Some (Map.empty(youtubeTimestamps \<mapsto> messageOr (js ''Unknown error'') rate_limited))"
    "status p' = status project_two_errors"
    unfolding retry_youtube_def by blast
  then have "case docs (snd (retryJobFunction env_all_fail retry_youtube world_two_errors)) 7 of
      None \<Rightarrow> False
    | Some p' \<Rightarrow>
        map_option (\<lambda>errs. errs titles) (jobErrors p') = Some None \<and>
        map_option (\<lambda>errs. errs youtubeTimestamps) (jobErrors p') =
          Some (Some (js ''429 rate limit'')) \<and>
        status p' = completed"
    by (simp add: rate_limited_def project_two_errors_def)
  with before out show ?thesis by simp
qed

lemma retry_not_entitled:
  "job \<notin> set (entitledTasks (case cur of None \<Rightarrow> Free | Some x \<Rightarrow> x)) \<Longrightarrow>
   retryJobFunction e (RetryJobEvent pid job uid orig cur) w =
     (Inl (new_Error (notAvailableMessage job)), w)"
  by (simp add: retryJobFunction_def not_entitled_iff throw_def)

lemma retry_without_transcript:
  "job \<in> set (entitledTasks (case cur of None \<Rightarrow> Free | Some x \<Rightarrow> x)) \<Longrightarrow>
   docs w pid = None \<or> (\<exists>p. docs w pid = Some p \<and> transcript p = None) \<Longrightarrow>
   retryJobFunction e (RetryJobEvent pid job uid orig cur) w =
     (Inl (new_Error (js ''Project or transcript not found'')), w)"
  by (auto simp: retryJobFunction_def not_entitled_iff throw_def getProject_def andThen_def)

lemma retry_without_chapters:
  "job \<in> set (entitledTasks (case cur of None \<Rightarrow> Free | Some x \<Rightarrow> x)) \<Longrightarrow>
   docs w pid = Some p \<Longrightarrow> transcript p = Some t \<Longrightarrow> transcript_text t \<noteq> [] \<Longrightarrow>
   job = keyMoments \<or> job = youtubeTimestamps \<Longrightarrow>
   chapters t = None \<or> chapters t = Some [] \<Longrightarrow>
   retryJobFunction e (RetryJobEvent pid job uid orig cur) w =
     (Inl (new_Error (noChaptersMessage job)), w)"
  by (auto simp: retryJobFunction_def not_entitled_iff throw_def getProject_def andThen_def
      jobsRequiringChapters_def)

lemma notAvailableMessage_mentions_upgrade:
  "notAvailableMessage job =
     (js ''This feature ('' @ jobString job @ js '') is not available on your current plan. '')
     @ js ''Please upgrade to access it.''"
  by (simp add: notAvailableMessage_def js_def)

text \<open>
  C7, as the code has it. \<open>retryJobFunction\<close> checks its preconditions in this order and
  throws, before it launches or writes anything (the world is returned as it was):
  an Error saying the feature is not available and asking to upgrade, when the job is
  not among the current plan's entitled tasks; else an Error "Project or transcript not
  found" when the project is missing or has no transcript; else, for \<open>keyMoments\<close> and
  \<open>youtubeTimestamps\<close> on a transcript with text and no chapter, an Error saying the
  transcript has no chapters. In that last case nothing is written to \<open>jobErrors\<close> and
  the status stays as it was.
\<close>

theorem retry_preconditions:
  fixes uid :: jsstring and orig :: "PlanName option"
  defines "plan cur \<equiv> (case cur of None \<Rightarrow> Free | Some x \<Rightarrow> x)"
  shows "(job \<notin> set (entitledTasks (plan cur)) \<longrightarrow>
            retryJobFunction e (RetryJobEvent pid job uid orig cur) w =
              (Inl (new_Error (notAvailableMessage job)), w) \<and>
            (\<exists>pre. notAvailableMessage job = pre @ js ''Please upgrade to access it.'')) \<and>
         (job \<in> set (entitledTasks (plan cur)) \<and>
          (docs w pid = None \<or> (\<exists>p. docs w pid = Some p \<and> transcript p = None)) \<longrightarrow>
            retryJobFunction e (RetryJobEvent pid job uid orig cur) w =
              (Inl (new_Error (js ''Project or transcript not found'')), w)) \<and>
         (job \<in> set (entitledTasks (plan cur)) \<and>
          docs w pid = Some p \<and> transcript p = Some t \<and> transcript_text t \<noteq> [] \<and>
          (job = keyMoments \<or> job = youtubeTimestamps) \<and>
          (chapters t = None \<or> chapters t = Some []) \<longrightarrow>
            retryJobFunction e (RetryJobEvent pid job uid orig cur) w =
              (Inl (new_Error (noChaptersMessage job)), w))"
  unfolding plan_def
  using retry_not_entitled [of job cur e pid uid orig w]
    retry_without_transcript [of job cur w pid e uid orig]
    retry_without_chapters [of job cur w pid p t e uid orig]
    notAvailableMessage_mentions_upgrade [of job]
  by blast

theorem retry_preconditions_witness:
  "retryJobFunction env_all_fail (RetryJobEvent 7 socialPosts (js ''user_1'') (Some Free) (Some Free))
     world_with_summary =
     (Inl (new_Error (notAvailableMessage socialPosts)), world_with_summary) \<and>
   retryJobFunction env_all_fail (RetryJobEvent 7 summary (js ''user_1'') (Some Free) (Some Free))
     world0 =
     (Inl (new_Error (js ''Project or transcript not found'')), world0) \<and>
   retryJobFunction env_all_fail retry_youtube_after_upgrade world_with_summary =
     (Inl (new_Error (noChaptersMessage youtubeTimestamps)), world_with_summary)"
proof -
  have a: "socialPosts \<notin> set (entitledTasks (case Some Free of None \<Rightarrow> Free | Some x \<Rightarrow> x))"
    by (simp add: entitledTasks_Free)
  have b: "summary \<in> set (entitledTasks (case Some Free of None \<Rightarrow> Free | Some x \<Rightarrow> x)) \<and>
      (docs world0 7 = None \<or> (\<exists>p. docs world0 7 = Some p \<and> transcript p = None))"
    by (simp add: entitledTasks_Free world0_def project0_def)
  have c: "youtubeTimestamps \<in> set (entitledTasks (case Some Ultra of None \<Rightarrow> Free | Some x \<Rightarrow> x)) \<and>
      docs world_with_summary 7 = Some project_with_summary \<and>
      transcript project_with_summary = Some (TranscriptWithExtras (js ''hello world'') (Some [])) \<and>
      transcript_text (TranscriptWithExtras (js ''hello world'') (Some [])) \<noteq> [] \<and>
      (youtubeTimestamps = keyMoments \<or> youtubeTimestamps = youtubeTimestamps) \<and>
      (chapters (TranscriptWithExtras (js ''hello world'') (Some [])) = None \<or>
       chapters (TranscriptWithExtras (js ''hello world'') (Some [])) = Some [])"
    by (simp add: entitledTasks_Ultra world_with_summary_def project_with_summary_def js_def)
  show ?thesis
    unfolding retry_youtube_after_upgrade_def
    using a b c
      retry_preconditions [of socialPosts "Some Free" env_all_fail 7 "js ''user_1''" "Some Free"
        world_with_summary]
      retry_preconditions [of summary "Some Free" env_all_fail 7 "js ''user_1''" "Some Free"
        world0]
      retry_preconditions [of youtubeTimestamps "Some Ultra" env_all_fail 7 "js ''user_1''"
        "Some Free" world_with_summary project_with_summary
        "TranscriptWithExtras (js ''hello world'') (Some [])"]
    by blast
qed

text \<open>
  The claim as stated fails in its no-chapters scenario: the retry of the YouTube
  timestamps on a text-only transcript, after an upgrade to ultra, throws the
  precondition error and leaves \<open>jobErrors\<close> unset.
\<close>

theorem no_chapters_retry_counterexample:
  "fst (retryJobFunction env_all_fail retry_youtube_after_upgrade world_with_summary) =
     Inl (new_Error (noChaptersMessage youtubeTimestamps)) \<and>
   (case docs (snd (retryJobFunction env_all_fail retry_youtube_after_upgrade world_with_summary)) 7 of
      None \<Rightarrow> False
    | Some p' \<Rightarrow> status p' = completed \<and> jobErrors p' = None)"
proof -
  have "retryJobFunction env_all_fail retry_youtube_after_upgrade world_with_summary =
     (Inl (new_Error (noChaptersMessage youtubeTimestamps)), world_with_summary)"
    unfolding retry_youtube_after_upgrade_def
    by (rule retry_without_chapters
          [where p = project_with_summary
             and t = "TranscriptWithExtras (js ''hello world'') (Some [])"])
       (simp_all add: entitledTasks_Ultra world_with_summary_def project_with_summary_def js_def)
  then show ?thesis
    by (simp add: world_with_summary_def project_with_summary_def project0_def)
qed

end
